theory Spec2Isabelle
  imports Main
begin

section \<open>The OLED status monitor of \<^verbatim>\<open>ip_display.py\<close>\<close>

text \<open>
  The program is one class, \<^verbatim>\<open>SystemMonitor\<close>: five button callbacks that change the
  object's attributes, and \<^verbatim>\<open>run\<close>, which initialises the display and then loops
  forever, once a second. The model keeps the attributes in a record, passes the object
  explicitly, and returns with every call the effects it had on the outside world (console
  lines, frames, processes), the object afterwards and how the call ended.

  What the program reads from outside is a parameter of the model: the reading of
  \<^verbatim>\<open>time.time()\<close>, the outcome of a display operation, of a subprocess. Times are
  Python floats; the model leaves the type of times open (\<open>'t\<close>) and uses nothing of it
  but the subtraction and the comparison the source applies, so no property below rests on
  real-number arithmetic.
\<close>

subsection \<open>Exceptions\<close>

text \<open>
  \<open>Other_exception\<close> is any further exception derived from \<^verbatim>\<open>Exception\<close> (a bus error of
  the display, a failed subprocess), with its message. \<^verbatim>\<open>except Exception\<close> catches
  everything but the keyboard interrupt.
\<close>

datatype exn = KeyboardInterrupt | ZeroDivisionError | IndexError | Other_exception string

fun is_Exception :: "exn \<Rightarrow> bool" where
  "is_Exception KeyboardInterrupt = False"
| "is_Exception ZeroDivisionError = True"
| "is_Exception IndexError = True"
| "is_Exception (Other_exception m) = True"

text \<open>Python's \<^verbatim>\<open>a % b\<close> on integers: floored, and an error when \<open>b\<close> is zero.\<close>

definition py_mod :: "int \<Rightarrow> int \<Rightarrow> exn + int" where
  "py_mod a b = (if b = 0 then Inl ZeroDivisionError else Inr (a mod b))"

text \<open>Python's \<^verbatim>\<open>xs[i]\<close>: a negative index counts from the end.\<close>

definition py_getitem :: "'a list \<Rightarrow> int \<Rightarrow> exn + 'a" where
  "py_getitem xs i =
     (if 0 \<le> i \<and> i < int (length xs) then Inr (xs ! nat i)
      else if i < 0 \<and> - int (length xs) \<le> i then Inr (xs ! nat (int (length xs) + i))
      else Inl IndexError)"

subsection \<open>The object\<close>

datatype font = Liberation_Mono nat | DejaVu_Sans_Mono nat | Default_font

text \<open>
  The attributes \<^verbatim>\<open>__init__\<close> assigns (lines 27 to 50), but the five pin numbers, which
  only \<^verbatim>\<open>setup_buttons\<close> reads. \<open>device\<close> holds the bus address of the opened display.
\<close>

record 't SystemMonitor =
  current_screen :: int
  total_screens :: int
  last_update :: int
  update_interval :: int
  auto_advance :: bool
  auto_advance_interval :: 't
  last_button_press :: 't
  commands :: "(string \<times> string) list"
  selected_command :: int
  device :: "int option"
  font :: "font option"
  small_font :: "font option"

text \<open>\<^verbatim>\<open>__init__\<close>; \<open>now\<close> is the reading of \<^verbatim>\<open>time.time()\<close> on line 33.\<close>

definition SystemMonitor_init :: "'t::numeral \<Rightarrow> 't SystemMonitor" where
  "SystemMonitor_init now =
     \<lparr> current_screen = 0,
       total_screens = 4,
       last_update = 0,
       update_interval = 5,
       auto_advance = True,
       auto_advance_interval = 10,
       last_button_press = now,
       commands = [(''Restart'', ''sudo reboot''), (''Shutdown'', ''sudo shutdown -h now'')],
       selected_command = 0,
       device = None,
       font = None,
       small_font = None \<rparr>"

subsection \<open>Effects\<close>

text \<open>What a frame shows: the routine that drew it, with what it read of the object.\<close>

datatype frame =
    Ip_frame bool
  | Cpu_frame
  | Disk_frame
  | Command_frame "(bool \<times> string) list"
  | Border_frame

datatype effect =
    Print_switched int
  | Print_selected string
  | Print_executing string
  | Print_error_executing exn
  | Show_executing string
  | Show_error exn
  | Subprocess_run string
  | Sleep nat
  | Init_attempt int
  | Print_init_ok int
  | Print_init_failed exn exn
  | Print_starting
  | Show_frame frame
  | Print_exiting
  | Device_clear
  | GPIO_cleanup

text \<open>
  A callback ends by returning (\<open>None\<close>) or by raising (\<open>Some e\<close>); the object it is given
  back is the one at that moment.
\<close>

type_synonym 't result = "effect list \<times> 't SystemMonitor \<times> exn option"

subsection \<open>The button callbacks\<close>

text \<open>
  \<^verbatim>\<open>prev_command\<close> and \<^verbatim>\<open>next_command\<close> (lines 79 to 91). \<open>now\<close> is the reading of
  \<^verbatim>\<open>time.time()\<close>. The modulus raises before anything is assigned.
\<close>

definition prev_command :: "'t \<Rightarrow> 't SystemMonitor \<Rightarrow> 't result" where
  "prev_command now s =
     (if current_screen s = 3 then
        (case py_mod (selected_command s - 1) (int (length (commands s))) of
           Inl e \<Rightarrow> ([], s, Some e)
         | Inr i \<Rightarrow>
             (let s' = s\<lparr>selected_command := i, last_button_press := now\<rparr> in
              case py_getitem (commands s') (selected_command s') of
                Inl e \<Rightarrow> ([], s', Some e)
              | Inr entry \<Rightarrow> ([Print_selected (fst entry)], s', None)))
      else ([], s, None))"

definition next_command :: "'t \<Rightarrow> 't SystemMonitor \<Rightarrow> 't result" where
  "next_command now s =
     (if current_screen s = 3 then
        (case py_mod (selected_command s + 1) (int (length (commands s))) of
           Inl e \<Rightarrow> ([], s, Some e)
         | Inr i \<Rightarrow>
             (let s' = s\<lparr>selected_command := i, last_button_press := now\<rparr> in
              case py_getitem (commands s') (selected_command s') of
                Inl e \<Rightarrow> ([], s', Some e)
              | Inr entry \<Rightarrow> ([Print_selected (fst entry)], s', None)))
      else ([], s, None))"

text \<open>
  \<^verbatim>\<open>execute_command\<close> (lines 93 to 112). Its three calls to the outside may each raise:
  the canvas that shows "Executing...", \<^verbatim>\<open>subprocess.run\<close>, and the canvas that shows
  the error. The function reads no clock and assigns no attribute.
\<close>

record exec_env =
  canvas_executing :: "exn option"
  subprocess_result :: "exn option"
  canvas_error :: "exn option"

definition execute_failed :: "exec_env \<Rightarrow> effect list \<Rightarrow> 't SystemMonitor \<Rightarrow> exn \<Rightarrow> 't result" where
  "execute_failed env effs s e =
     (if is_Exception e then
        (case canvas_error env of
           Some e' \<Rightarrow> (effs @ [Print_error_executing e], s, Some e')
         | None \<Rightarrow> (effs @ [Print_error_executing e, Show_error e, Sleep 3], s, None))
      else (effs, s, Some e))"

definition execute_command :: "exec_env \<Rightarrow> 't SystemMonitor \<Rightarrow> 't result" where
  "execute_command env s =
     (if current_screen s = 3 then
        (case py_getitem (commands s) (selected_command s) of
           Inl e \<Rightarrow> ([], s, Some e)
         | Inr entry \<Rightarrow>
             (case canvas_executing env of
                Some e \<Rightarrow> execute_failed env [Print_executing (fst entry)] s e
              | None \<Rightarrow>
                  (case subprocess_result env of
                     Some e \<Rightarrow>
                       execute_failed env
                         [Print_executing (fst entry), Show_executing (fst entry),
                          Subprocess_run (snd entry)] s e
                   | None \<Rightarrow>
                       ([Print_executing (fst entry), Show_executing (fst entry),
                         Subprocess_run (snd entry)], s, None))))
      else ([], s, None))"

text \<open>\<^verbatim>\<open>prev_screen\<close> and \<^verbatim>\<open>next_screen\<close> (lines 114 to 124).\<close>

definition prev_screen :: "'t \<Rightarrow> 't SystemMonitor \<Rightarrow> 't result" where
  "prev_screen now s =
     (case py_mod (current_screen s - 1) (total_screens s) of
        Inl e \<Rightarrow> ([], s, Some e)
      | Inr c \<Rightarrow> ([Print_switched c], s\<lparr>current_screen := c, last_button_press := now\<rparr>, None))"

definition next_screen :: "'t \<Rightarrow> 't SystemMonitor \<Rightarrow> 't result" where
  "next_screen now s =
     (case py_mod (current_screen s + 1) (total_screens s) of
        Inl e \<Rightarrow> ([], s, Some e)
      | Inr c \<Rightarrow> ([Print_switched c], s\<lparr>current_screen := c, last_button_press := now\<rparr>, None))"

subsection \<open>The display loop\<close>

text \<open>
  The auto-advance of lines 311 to 314, the first statement of every pass of the loop.
  The source has no name for it; \<open>maybe_auto_advance\<close> is the specification's.
\<close>

definition maybe_auto_advance :: "'t::{minus,ord} \<Rightarrow> 't SystemMonitor \<Rightarrow> 't SystemMonitor \<times> exn option" where
  "maybe_auto_advance current_time s =
     (if auto_advance s \<and> current_screen s \<noteq> 3 \<and>
         current_time - last_button_press s > auto_advance_interval s
      then
        (case py_mod (current_screen s + 1) (total_screens s) of
           Inl e \<Rightarrow> (s, Some e)
         | Inr c \<Rightarrow> (s\<lparr>current_screen := c, last_button_press := current_time\<rparr>, None))
      else (s, None))"

text \<open>The dispatch of lines 323 to 330; the border is drawn in every case.\<close>

definition draw_command_screen :: "'t SystemMonitor \<Rightarrow> (bool \<times> string) list" where
  "draw_command_screen s =
     map (\<lambda>(i, entry). (int i = selected_command s, fst entry))
       (enumerate 0 (commands s))"

definition draw_frame :: "'t SystemMonitor \<Rightarrow> frame" where
  "draw_frame s =
     (if current_screen s = 0 then Ip_frame (auto_advance s)
      else if current_screen s = 1 then Cpu_frame
      else if current_screen s = 2 then Disk_frame
      else if current_screen s = 3 then Command_frame (draw_command_screen s)
      else Border_frame)"

text \<open>
  What happens while the loop runs, in the order it happens: a button edge, whose callback
  runs in the thread of the GPIO library, or one pass of the loop. A pass carries the
  reading of the clock and the exception, if any, that its \<^verbatim>\<open>with canvas\<close> block (drawing
  and handing the frame to the display) and its \<^verbatim>\<open>time.sleep(1)\<close> raise.
\<close>

datatype 't event =
    Button_L 't
  | Button_R 't
  | Button_A 't
  | Button_B 't
  | Button_C exec_env
  | Tick 't "exn option" "exn option"

text \<open>
  The bindings of \<^verbatim>\<open>setup_buttons\<close> (lines 69 to 73): Left and Right turn the panels, A
  (up) and B (down) move the selection, C (center) executes. Without the GPIO library no
  button event happens. \<open>callback\<close> is applied to button events only; its last equation
  makes it total.
\<close>

fun is_button :: "'t event \<Rightarrow> bool" where
  "is_button (Tick now submit sleep) = False"
| "is_button e = True"

fun callback :: "'t::{minus,ord} event \<Rightarrow> 't SystemMonitor \<Rightarrow> 't result" where
  "callback (Button_L now) s = prev_screen now s"
| "callback (Button_R now) s = next_screen now s"
| "callback (Button_A now) s = prev_command now s"
| "callback (Button_B now) s = next_command now s"
| "callback (Button_C env) s = execute_command env s"
| "callback (Tick now submit sleep) s = ([], s, None)"

datatype run_outcome = Running | Returned | Raised exn

text \<open>
  An exception that leaves the body of the loop (lines 334 to 338): the one handler is
  for the keyboard interrupt, anything else leaves \<^verbatim>\<open>run\<close>.
\<close>

definition leave_loop :: "bool \<Rightarrow> effect list \<Rightarrow> 't SystemMonitor \<Rightarrow> exn \<Rightarrow>
    effect list \<times> 't SystemMonitor \<times> run_outcome option" where
  "leave_loop gpio effs s e =
     (case e of
        KeyboardInterrupt \<Rightarrow>
          (effs @ [Print_exiting, Device_clear] @ (if gpio then [GPIO_cleanup] else []),
           s, Some Returned)
      | _ \<Rightarrow> (effs, s, Some (Raised e)))"

text \<open>
  One event. An exception in a callback ends the callback, in its own thread, and the
  loop goes on with the object as the callback left it.
\<close>

definition loop_step :: "bool \<Rightarrow> 't::{minus,ord} event \<Rightarrow> 't SystemMonitor \<Rightarrow>
    effect list \<times> 't SystemMonitor \<times> run_outcome option" where
  "loop_step gpio ev s =
     (case ev of
        Tick current_time submit sleep \<Rightarrow>
          (case maybe_auto_advance current_time s of
             (s1, Some e) \<Rightarrow> leave_loop gpio [] s1 e
           | (s1, None) \<Rightarrow>
               (case submit of
                  Some e \<Rightarrow> leave_loop gpio [] s1 e
                | None \<Rightarrow>
                    (case sleep of
                       Some e \<Rightarrow> leave_loop gpio [Show_frame (draw_frame s1)] s1 e
                     | None \<Rightarrow> ([Show_frame (draw_frame s1), Sleep 1], s1, None))))
      | _ \<Rightarrow> (case callback ev s of (effs, s1, r) \<Rightarrow> (effs, s1, None)))"

text \<open>
  \<^verbatim>\<open>while True\<close> over the events given. The loop has no exit of its own: when the
  events are used up it is still \<open>Running\<close>.
\<close>

fun run_loop :: "bool \<Rightarrow> 't::{minus,ord} event list \<Rightarrow> 't SystemMonitor \<Rightarrow>
    effect list \<times> 't SystemMonitor \<times> run_outcome" where
  "run_loop gpio [] s = ([], s, Running)"
| "run_loop gpio (ev # evs) s =
     (case loop_step gpio ev s of
        (effs, s1, Some out) \<Rightarrow> (effs, s1, out)
      | (effs, s1, None) \<Rightarrow>
          (case run_loop gpio evs s1 of (effs', s2, out) \<Rightarrow> (effs @ effs', s2, out)))"

subsection \<open>\<^verbatim>\<open>run\<close> and \<^verbatim>\<open>main\<close>\<close>

text \<open>
  Opening the display (lines 276 to 288). \<open>oled_init a\<close> is the outcome of
  \<^verbatim>\<open>i2c(port=1, address=a)\<close> followed by \<^verbatim>\<open>ssd1306(serial, width=128, height=64)\<close>:
  \<open>None\<close> when both return, the exception otherwise.
\<close>

datatype flow = Fallthrough | Return | Raise exn

definition init_display :: "(int \<Rightarrow> exn option) \<Rightarrow> 't SystemMonitor \<Rightarrow>
    effect list \<times> 't SystemMonitor \<times> flow" where
  "init_display oled_init s =
     (case oled_init 0x3C of
        None \<Rightarrow> ([Init_attempt 0x3C, Print_init_ok 0x3C], s\<lparr>device := Some 0x3C\<rparr>, Fallthrough)
      | Some e \<Rightarrow>
          (if is_Exception e then
             (case oled_init 0x3D of
                None \<Rightarrow>
                  ([Init_attempt 0x3C, Init_attempt 0x3D, Print_init_ok 0x3D],
                   s\<lparr>device := Some 0x3D\<rparr>, Fallthrough)
              | Some e2 \<Rightarrow>
                  (if is_Exception e2 then
                     ([Init_attempt 0x3C, Init_attempt 0x3D, Print_init_failed e e2], s, Return)
                   else ([Init_attempt 0x3C, Init_attempt 0x3D], s, Raise e2)))
           else ([Init_attempt 0x3C], s, Raise e)))"

text \<open>
  Loading the fonts (lines 291 to 300): each file either loads at both sizes or fails;
  \<^verbatim>\<open>ImageFont.load_default()\<close> returns the font built into the library.
\<close>

datatype font_file = Liberation_file | DejaVu_file

definition load_fonts :: "(font_file \<Rightarrow> bool) \<Rightarrow> 't SystemMonitor \<Rightarrow> 't SystemMonitor" where
  "load_fonts truetype_ok s =
     (if truetype_ok Liberation_file then
        s\<lparr>font := Some (Liberation_Mono 11), small_font := Some (Liberation_Mono 9)\<rparr>
      else if truetype_ok DejaVu_file then
        s\<lparr>font := Some (DejaVu_Sans_Mono 11), small_font := Some (DejaVu_Sans_Mono 9)\<rparr>
      else s\<lparr>font := Some Default_font, small_font := Some Default_font\<rparr>)"

record run_env =
  oled_init :: "int \<Rightarrow> exn option"
  truetype_ok :: "font_file \<Rightarrow> bool"
  GPIO_AVAILABLE :: bool

definition run :: "run_env \<Rightarrow> 't::{minus,ord} event list \<Rightarrow> 't SystemMonitor \<Rightarrow>
    effect list \<times> 't SystemMonitor \<times> run_outcome" where
  "run env evs s =
     (case init_display (oled_init env) s of
        (effs, s1, Return) \<Rightarrow> (effs, s1, Returned)
      | (effs, s1, Raise e) \<Rightarrow> (effs, s1, Raised e)
      | (effs, s1, Fallthrough) \<Rightarrow>
          (case run_loop (GPIO_AVAILABLE env) evs (load_fonts (truetype_ok env) s1) of
             (effs', s2, out) \<Rightarrow> (effs @ [Print_starting] @ effs', s2, out)))"

definition main :: "run_env \<Rightarrow> 't::{minus,ord,numeral} \<Rightarrow> 't event list \<Rightarrow>
    effect list \<times> 't SystemMonitor \<times> run_outcome" where
  "main env now evs = run env evs (SystemMonitor_init now)"

text \<open>The object a result carries.\<close>

definition state_of :: "'e \<times> 's \<times> 'o \<Rightarrow> 's" where
  "state_of r = fst (snd r)"

definition effects_of :: "'e \<times> 's \<times> 'o \<Rightarrow> 'e" where
  "effects_of r = fst r"

definition outcome_of :: "'e \<times> 's \<times> 'o \<Rightarrow> 'o" where
  "outcome_of r = snd (snd r)"

subsection \<open>Auxiliary notions\<close>

text \<open>
  The objects the program can be in: the attributes that nothing reassigns have the value
  \<^verbatim>\<open>__init__\<close> gave them, and the two cursors are in range.
\<close>

definition well_formed :: "'t SystemMonitor \<Rightarrow> bool" where
  "well_formed s \<longleftrightarrow>
     total_screens s = 4 \<and>
     commands s = [(''Restart'', ''sudo reboot''), (''Shutdown'', ''sudo shutdown -h now'')] \<and>
     0 \<le> current_screen s \<and> current_screen s < 4 \<and>
     0 \<le> selected_command s \<and> selected_command s < 2"

text \<open>
  Kinds of events: the presses of the two panel buttons, the passes of the loop, and the
  number of panels a list of presses advances by (one up for each Right, one down for each
  Left).
\<close>

fun is_panel_button :: "'t event \<Rightarrow> bool" where
  "is_panel_button (Button_L now) = True"
| "is_panel_button (Button_R now) = True"
| "is_panel_button e = False"

fun is_tick :: "'t event \<Rightarrow> bool" where
  "is_tick (Tick now submit sleep) = True"
| "is_tick e = False"

fun net_advance :: "'t event list \<Rightarrow> int" where
  "net_advance [] = 0"
| "net_advance (Button_R now # evs) = net_advance evs + 1"
| "net_advance (Button_L now # evs) = net_advance evs - 1"
| "net_advance (e # evs) = net_advance evs"

text \<open>The condition of lines 311 and 312.\<close>

definition idle_too_long :: "'t::{minus,ord} \<Rightarrow> 't SystemMonitor \<Rightarrow> bool" where
  "idle_too_long current_time s \<longleftrightarrow>
     auto_advance s \<and> current_screen s \<noteq> 3 \<and>
     current_time - last_button_press s > auto_advance_interval s"

text \<open>The effects that open the display.\<close>

fun is_init_attempt :: "effect \<Rightarrow> bool" where
  "is_init_attempt (Init_attempt a) = True"
| "is_init_attempt e = False"

text \<open>
  Two objects that are equal, or that show the command screen and differ in
  \<open>last_button_press\<close> alone.
\<close>

definition same_but_timestamp :: "'t SystemMonitor \<Rightarrow> 't SystemMonitor \<Rightarrow> bool" where
  "same_but_timestamp s s' \<longleftrightarrow>
     s' = s \<or> (current_screen s = 3 \<and> s' = s\<lparr>last_button_press := last_button_press s'\<rparr>)"

section \<open>Properties\<close>

subsection \<open>Auxiliary facts\<close>

lemma state_of_simp [simp]: "state_of (a, b, c) = b"
  by (simp add: state_of_def)

lemma effects_of_simp [simp]: "effects_of (a, b, c) = a"
  by (simp add: effects_of_def)

lemma outcome_of_simp [simp]: "outcome_of (a, b, c) = c"
  by (simp add: outcome_of_def)

lemma py_mod_nonzero: "b \<noteq> 0 \<Longrightarrow> py_mod a b = Inr (a mod b)"
  by (simp add: py_mod_def)

lemma py_getitem_in_range:
  "0 \<le> i \<Longrightarrow> i < int (length xs) \<Longrightarrow> py_getitem xs i = Inr (xs ! nat i)"
  by (simp add: py_getitem_def)

lemma well_formed_init: "well_formed (SystemMonitor_init now)"
  by (simp add: well_formed_def SystemMonitor_init_def)

lemma next_screen_wf: "well_formed s \<Longrightarrow> well_formed (state_of (next_screen now s))"
  by (simp add: well_formed_def next_screen_def py_mod_nonzero)

lemma prev_screen_wf: "well_formed s \<Longrightarrow> well_formed (state_of (prev_screen now s))"
  by (simp add: well_formed_def prev_screen_def py_mod_nonzero)

lemma next_command_wf: "well_formed s \<Longrightarrow> well_formed (state_of (next_command now s))"
  by (simp add: well_formed_def next_command_def py_mod_nonzero py_getitem_in_range Let_def)

lemma prev_command_wf: "well_formed s \<Longrightarrow> well_formed (state_of (prev_command now s))"
  by (simp add: well_formed_def prev_command_def py_mod_nonzero py_getitem_in_range Let_def)

lemma execute_command_state: "state_of (execute_command env s) = s"
  by (simp add: execute_command_def execute_failed_def split: sum.splits option.splits)

lemma callback_wf: "well_formed s \<Longrightarrow> well_formed (state_of (callback ev s))"
  by (cases ev)
    (simp_all add: next_screen_wf prev_screen_wf next_command_wf prev_command_wf
      execute_command_state)

lemma maybe_auto_advance_wf:
  "well_formed s \<Longrightarrow> well_formed (fst (maybe_auto_advance now s))"
  by (simp add: well_formed_def maybe_auto_advance_def py_mod_nonzero)

lemma leave_loop_state: "state_of (leave_loop gpio effs s e) = s"
  by (cases e) (simp_all add: leave_loop_def)

lemma loop_step_state:
  "state_of (loop_step gpio ev s) =
     (case ev of Tick now submit sleep \<Rightarrow> fst (maybe_auto_advance now s)
      | _ \<Rightarrow> state_of (callback ev s))"
  by (cases ev)
    (auto simp: loop_step_def leave_loop_state split: prod.splits option.splits)

lemma loop_step_wf: "well_formed s \<Longrightarrow> well_formed (state_of (loop_step gpio ev s))"
  by (cases ev) (simp_all add: loop_step_state callback_wf maybe_auto_advance_wf del: callback.simps)

lemma run_loop_preserves:
  assumes step: "\<And>ev s'. P s' \<Longrightarrow> P (state_of (loop_step gpio ev s'))"
    and start: "P s"
  shows "P (state_of (run_loop gpio evs s))"
  using start
proof (induction evs arbitrary: s)
  case Nil
  then show ?case by simp
next
  case (Cons ev evs)
  obtain effs s1 r where st: "loop_step gpio ev s = (effs, s1, r)"
    by (cases "loop_step gpio ev s") auto
  have p1: "P s1"
    using step [OF Cons.prems, of ev] st by simp
  show ?case
  proof (cases r)
    case None
    obtain effs' s2 out where rest: "run_loop gpio evs s1 = (effs', s2, out)"
      by (cases "run_loop gpio evs s1") auto
    have "P s2"
      using Cons.IH [OF p1] rest by simp
    then show ?thesis
      using st None rest by simp
  next
    case (Some out)
    then show ?thesis
      using st p1 by simp
  qed
qed

lemma run_loop_wf: "well_formed s \<Longrightarrow> well_formed (state_of (run_loop gpio evs s))"
  by (rule run_loop_preserves) (simp_all add: loop_step_wf)

lemma init_display_state:
  "state_of (init_display oi s) = s \<and> outcome_of (init_display oi s) \<noteq> Fallthrough \<or>
   (\<exists>a. state_of (init_display oi s) = s\<lparr>device := Some a\<rparr>) \<and>
     outcome_of (init_display oi s) = Fallthrough"
  by (auto simp: init_display_def split: option.splits)

lemma run_state:
  "state_of (run env evs s) = s \<or>
   (\<exists>a. state_of (run env evs s) =
      state_of (run_loop (GPIO_AVAILABLE env) evs
        (load_fonts (truetype_ok env) (s\<lparr>device := Some a\<rparr>))))"
proof -
  obtain effs s1 fl where i: "init_display (oled_init env) s = (effs, s1, fl)"
    by (cases "init_display (oled_init env) s") auto
  show ?thesis
  proof (cases fl)
    case Fallthrough
    then obtain a where "s1 = s\<lparr>device := Some a\<rparr>"
      using init_display_state [of "oled_init env" s] i by auto
    then have "state_of (run env evs s) =
        state_of (run_loop (GPIO_AVAILABLE env) evs
          (load_fonts (truetype_ok env) (s\<lparr>device := Some a\<rparr>)))"
      using i Fallthrough by (simp add: run_def split: prod.splits)
    then show ?thesis by blast
  next
    case Return
    then have "s1 = s"
      using init_display_state [of "oled_init env" s] i by auto
    then show ?thesis
      using i Return by (simp add: run_def)
  next
    case (Raise e)
    then have "s1 = s"
      using init_display_state [of "oled_init env" s] i by auto
    then show ?thesis
      using i Raise by (simp add: run_def)
  qed
qed

lemma well_formed_setup:
  "well_formed s \<Longrightarrow> well_formed (load_fonts ok (s\<lparr>device := d\<rparr>))"
  by (simp add: well_formed_def load_fonts_def)

lemma run_wf: "well_formed s \<Longrightarrow> well_formed (state_of (run env evs s))"
  using run_state [of env evs s] by (auto simp: run_loop_wf well_formed_setup)

lemma main_wf: "well_formed (state_of (main env now evs))"
  by (simp add: main_def run_wf well_formed_init)

lemma loop_step_button:
  "is_button ev \<Longrightarrow>
     loop_step gpio ev s = (effects_of (callback ev s), state_of (callback ev s), None)"
  by (cases ev) (simp_all add: loop_step_def split: prod.splits)

lemma run_loop_Cons_state:
  "state_of (run_loop gpio (ev # evs) s) =
     (if outcome_of (loop_step gpio ev s) = None
      then state_of (run_loop gpio evs (state_of (loop_step gpio ev s)))
      else state_of (loop_step gpio ev s))"
  by (cases "loop_step gpio ev s") (auto split: prod.splits option.splits)

lemma run_loop_preserves_on:
  assumes step: "\<And>ev s'. Q ev \<Longrightarrow> P s' \<Longrightarrow> P (state_of (loop_step gpio ev s'))"
    and evs: "list_all Q evs"
    and start: "P s"
  shows "P (state_of (run_loop gpio evs s))"
  using evs start
proof (induction evs arbitrary: s)
  case Nil
  then show ?case by simp
next
  case (Cons ev evs)
  have p1: "P (state_of (loop_step gpio ev s))"
    using step [of ev s] Cons.prems by simp
  have "P (state_of (run_loop gpio evs (state_of (loop_step gpio ev s))))"
    using Cons.IH [OF _ p1] Cons.prems by simp
  then show ?case
    using p1 by (simp add: run_loop_Cons_state del: run_loop.simps)
qed

lemma run_loop_panel_buttons:
  "total_screens s = 4 \<Longrightarrow> list_all is_panel_button evs \<Longrightarrow>
     current_screen (state_of (run_loop gpio evs s)) =
       (if evs = [] then current_screen s else (current_screen s + net_advance evs) mod 4)"
proof (induction evs arbitrary: s)
  case Nil
  then show ?case by simp
next
  case (Cons ev evs)
  then obtain now where ev: "ev = Button_L now \<or> ev = Button_R now"
    by (cases ev) auto
  define s1 where "s1 = state_of (callback ev s)"
  have step: "loop_step gpio ev s = (effects_of (callback ev s), s1, None)"
    using ev by (auto simp: loop_step_button s1_def)
  have t1: "total_screens s1 = 4"
    using ev Cons.prems(1) by (auto simp: s1_def prev_screen_def next_screen_def py_mod_nonzero)
  have c1: "current_screen s1 = (current_screen s + net_advance [ev]) mod 4"
    using ev Cons.prems(1) by (auto simp: s1_def prev_screen_def next_screen_def py_mod_nonzero)
  have n: "net_advance (ev # evs) = net_advance [ev] + net_advance evs"
    using ev by auto
  have rest: "current_screen (state_of (run_loop gpio evs s1)) =
      (if evs = [] then current_screen s1 else (current_screen s1 + net_advance evs) mod 4)"
    using Cons.IH [OF t1] Cons.prems(2) by simp
  have "current_screen (state_of (run_loop gpio (ev # evs) s)) =
      current_screen (state_of (run_loop gpio evs s1))"
    using step by (simp add: run_loop_Cons_state del: run_loop.simps)
  also have "\<dots> = (current_screen s + net_advance (ev # evs)) mod 4"
    unfolding rest c1 n by (simp add: mod_simps algebra_simps)
  finally show ?case by simp
qed

lemma callback_auto_advance: "auto_advance (state_of (callback ev s)) = auto_advance s"
  by (cases ev)
    (simp_all add: prev_screen_def next_screen_def prev_command_def next_command_def
      execute_command_state Let_def split: sum.splits)

lemma maybe_auto_advance_flag: "auto_advance (fst (maybe_auto_advance now s)) = auto_advance s"
  by (simp add: maybe_auto_advance_def split: sum.splits)

lemma loop_step_auto_advance: "auto_advance (state_of (loop_step gpio ev s)) = auto_advance s"
  by (cases ev)
    (simp_all add: loop_step_state callback_auto_advance maybe_auto_advance_flag
      del: callback.simps)

lemma run_loop_auto_advance: "auto_advance (state_of (run_loop gpio evs s)) = auto_advance s"
  by (rule run_loop_preserves [where P = "\<lambda>s'. auto_advance s' = auto_advance s"])
    (simp_all add: loop_step_auto_advance)

lemma load_fonts_auto_advance: "auto_advance (load_fonts ok s) = auto_advance s"
  by (simp add: load_fonts_def)

lemma run_auto_advance: "auto_advance (state_of (run env evs s)) = auto_advance s"
  using run_state [of env evs s]
  by (auto simp: run_loop_auto_advance load_fonts_auto_advance)

lemma run_loop_init_panel:
  "list_all is_panel_button evs \<Longrightarrow>
     current_screen (state_of (run_loop gpio evs (SystemMonitor_init now))) = net_advance evs mod 4"
  using run_loop_panel_buttons [of "SystemMonitor_init now" evs gpio]
  by (simp add: SystemMonitor_init_def)

lemma next_screen_4:
  "total_screens s = 4 \<Longrightarrow>
     next_screen t s =
       ([Print_switched ((current_screen s + 1) mod 4)],
        s\<lparr>current_screen := (current_screen s + 1) mod 4, last_button_press := t\<rparr>, None)"
  by (simp add: next_screen_def py_mod_nonzero)

lemma prev_screen_4:
  "total_screens s = 4 \<Longrightarrow>
     prev_screen t s =
       ([Print_switched ((current_screen s - 1) mod 4)],
        s\<lparr>current_screen := (current_screen s - 1) mod 4, last_button_press := t\<rparr>, None)"
  by (simp add: prev_screen_def py_mod_nonzero)

lemma next_command_on_commands:
  "current_screen s = 3 \<Longrightarrow> commands s \<noteq> [] \<Longrightarrow>
     next_command now s =
       ([Print_selected (fst (commands s !
           nat ((selected_command s + 1) mod int (length (commands s)))))],
        s\<lparr>selected_command := (selected_command s + 1) mod int (length (commands s)),
          last_button_press := now\<rparr>, None)"
  by (simp add: next_command_def py_mod_nonzero py_getitem_in_range Let_def)

lemma prev_command_on_commands:
  "current_screen s = 3 \<Longrightarrow> commands s \<noteq> [] \<Longrightarrow>
     prev_command now s =
       ([Print_selected (fst (commands s !
           nat ((selected_command s - 1) mod int (length (commands s)))))],
        s\<lparr>selected_command := (selected_command s - 1) mod int (length (commands s)),
          last_button_press := now\<rparr>, None)"
  by (simp add: prev_command_def py_mod_nonzero py_getitem_in_range Let_def)

lemma run_loop_button_Cons:
  "is_button ev \<Longrightarrow>
     state_of (run_loop gpio (ev # evs) s) = state_of (run_loop gpio evs (state_of (callback ev s)))"
  by (simp add: run_loop_Cons_state loop_step_button del: run_loop.simps)

lemma maybe_auto_advance_fires:
  "total_screens s = 4 \<Longrightarrow> idle_too_long now s \<Longrightarrow>
     maybe_auto_advance now s =
       (s\<lparr>current_screen := (current_screen s + 1) mod 4, last_button_press := now\<rparr>, None)"
  by (simp add: maybe_auto_advance_def idle_too_long_def py_mod_nonzero)

lemma maybe_auto_advance_rests:
  "\<not> idle_too_long now s \<Longrightarrow> maybe_auto_advance now s = (s, None)"
  by (auto simp: maybe_auto_advance_def idle_too_long_def)

lemma advanced_differs:
  "s\<lparr>current_screen := (current_screen s + 1) mod 4, last_button_press := now\<rparr> \<noteq> s"
proof
  assume "s\<lparr>current_screen := (current_screen s + 1) mod 4, last_button_press := now\<rparr> = s"
  then have "current_screen
      (s\<lparr>current_screen := (current_screen s + 1) mod 4, last_button_press := now\<rparr>) =
      current_screen s"
    by (rule arg_cong)
  then have "(current_screen s + 1) mod 4 = current_screen s"
    by simp
  then show False
    by presburger
qed

lemma maybe_auto_advance_on_commands:
  "current_screen s = 3 \<Longrightarrow> maybe_auto_advance now s = (s, None)"
  by (simp add: maybe_auto_advance_def)

lemma callback_panel_frame:
  "is_panel_button ev \<Longrightarrow>
     (state_of (callback ev s))\<lparr>current_screen := current_screen s,
        last_button_press := last_button_press s\<rparr> = s"
  by (cases ev) (simp_all add: prev_screen_def next_screen_def split: sum.splits)

lemma execute_command_off:
  "current_screen s \<noteq> 3 \<Longrightarrow> execute_command env s = ([], s, None)"
  by (simp add: execute_command_def)

lemma execute_command_no_entry:
  "current_screen s = 3 \<Longrightarrow> py_getitem (commands s) (selected_command s) = Inl e \<Longrightarrow>
     execute_command env s = ([], s, Some e)"
  by (simp add: execute_command_def)

lemma execute_command_announces:
  "current_screen s = 3 \<Longrightarrow> py_getitem (commands s) (selected_command s) = Inr entry \<Longrightarrow>
     \<exists>rest. effects_of (execute_command env s) = Print_executing (fst entry) # rest"
  by (simp add: execute_command_def execute_failed_def split: option.splits)

lemma execute_command_runs_only_selected:
  "py_getitem (commands s) (selected_command s) = Inr entry \<Longrightarrow>
   Subprocess_run c \<in> set (effects_of (execute_command env s)) \<Longrightarrow> c = snd entry"
  by (auto simp: execute_command_def execute_failed_def split: if_splits option.splits)

lemma execute_command_shows_only_selected:
  "py_getitem (commands s) (selected_command s) = Inr entry \<Longrightarrow>
   Show_executing l \<in> set (effects_of (execute_command env s)) \<Longrightarrow> l = fst entry"
  by (auto simp: execute_command_def execute_failed_def split: if_splits option.splits)

lemma execute_command_announces_only_selected:
  "py_getitem (commands s) (selected_command s) = Inr entry \<Longrightarrow>
   Print_executing l \<in> set (effects_of (execute_command env s)) \<Longrightarrow> l = fst entry"
  by (auto simp: execute_command_def execute_failed_def split: if_splits option.splits)

lemma execute_command_runs:
  "current_screen s = 3 \<Longrightarrow> py_getitem (commands s) (selected_command s) = Inr entry \<Longrightarrow>
   canvas_executing env = None \<Longrightarrow>
     Subprocess_run (snd entry) \<in> set (effects_of (execute_command env s))"
  by (simp add: execute_command_def execute_failed_def split: option.splits)

lemma execute_command_not_run:
  "canvas_executing env = Some e \<Longrightarrow>
     Subprocess_run c \<notin> set (effects_of (execute_command env s))"
  by (auto simp: execute_command_def execute_failed_def split: if_splits option.splits sum.splits)

lemma execute_command_succeeds:
  "current_screen s = 3 \<Longrightarrow> py_getitem (commands s) (selected_command s) = Inr entry \<Longrightarrow>
   canvas_executing env = None \<Longrightarrow> subprocess_result env = None \<Longrightarrow>
     execute_command env s =
       ([Print_executing (fst entry), Show_executing (fst entry), Subprocess_run (snd entry)],
        s, None)"
  by (simp add: execute_command_def)

lemma run_loop_append:
  "outcome_of (run_loop gpio pre s) = Running \<Longrightarrow>
     run_loop gpio (pre @ evs) s =
       (effects_of (run_loop gpio pre s) @
          effects_of (run_loop gpio evs (state_of (run_loop gpio pre s))),
        state_of (run_loop gpio evs (state_of (run_loop gpio pre s))),
        outcome_of (run_loop gpio evs (state_of (run_loop gpio pre s))))"
proof (induction pre arbitrary: s)
  case Nil
  show ?case
    by (cases "run_loop gpio evs s") simp
next
  case (Cons ev pre)
  obtain effs s1 r where st: "loop_step gpio ev s = (effs, s1, r)"
    by (cases "loop_step gpio ev s") auto
  show ?case
  proof (cases r)
    case None
    obtain effs' s2 out where rest: "run_loop gpio pre s1 = (effs', s2, out)"
      by (cases "run_loop gpio pre s1") auto
    have "out = Running"
      using Cons.prems st None rest by simp
    then have "outcome_of (run_loop gpio pre s1) = Running"
      using rest by simp
    from Cons.IH [OF this] show ?thesis
      using st None rest by simp
  next
    case (Some out)
    then have "out = Running"
      using Cons.prems st by simp
    have "out \<noteq> Running"
      using st Some
      by (cases ev)
        (auto simp: loop_step_def leave_loop_def split: prod.splits option.splits exn.splits)
    then show ?thesis
      using \<open>out = Running\<close> by simp
  qed
qed

lemma maybe_auto_advance_returns:
  "total_screens s \<noteq> 0 \<Longrightarrow> snd (maybe_auto_advance now s) = None"
  by (simp add: maybe_auto_advance_def py_mod_nonzero)

lemma tick_fails:
  "total_screens s \<noteq> 0 \<Longrightarrow>
     run_loop gpio (Tick now (Some e) sleep # post) s =
       (effects_of (leave_loop gpio [] (fst (maybe_auto_advance now s)) e),
        fst (maybe_auto_advance now s),
        (if e = KeyboardInterrupt then Returned else Raised e))"
proof -
  assume t: "total_screens s \<noteq> 0"
  obtain s1 where m: "maybe_auto_advance now s = (s1, None)"
    using maybe_auto_advance_returns [OF t, of now]
    by (cases "maybe_auto_advance now s") auto
  show ?thesis
    by (cases e) (simp_all add: loop_step_def leave_loop_def m)
qed

lemma execute_failed_no_init:
  "filter is_init_attempt effs = [] \<Longrightarrow>
     filter is_init_attempt (effects_of (execute_failed env effs s e)) = []"
  by (simp add: execute_failed_def split: option.splits)

lemma callback_no_init: "filter is_init_attempt (effects_of (callback ev s)) = []"
  by (cases ev)
    (simp_all add: prev_screen_def next_screen_def prev_command_def next_command_def
      execute_command_def execute_failed_no_init Let_def split: sum.splits option.splits)

lemma leave_loop_no_init:
  "filter is_init_attempt effs = [] \<Longrightarrow>
     filter is_init_attempt (effects_of (leave_loop gpio effs s e)) = []"
  by (cases e) (simp_all add: leave_loop_def)

lemma loop_step_no_init: "filter is_init_attempt (effects_of (loop_step gpio ev s)) = []"
proof (cases "is_button ev")
  case True
  then show ?thesis
    by (simp add: loop_step_button callback_no_init)
next
  case False
  then obtain now submit sleep where ev: "ev = Tick now submit sleep"
    by (cases ev) simp_all
  obtain s1 r where m: "maybe_auto_advance now s = (s1, r)"
    by (cases "maybe_auto_advance now s") auto
  show ?thesis
    unfolding ev
    by (simp add: loop_step_def m leave_loop_no_init split: option.splits)
qed

lemma run_loop_no_init: "filter is_init_attempt (effects_of (run_loop gpio evs s)) = []"
proof (induction evs arbitrary: s)
  case Nil
  show ?case by simp
next
  case (Cons ev evs)
  obtain effs s1 r where st: "loop_step gpio ev s = (effs, s1, r)"
    by (cases "loop_step gpio ev s") auto
  have e: "filter is_init_attempt effs = []"
    using loop_step_no_init [of gpio ev s] st by simp
  show ?case
  proof (cases r)
    case None
    obtain effs' s2 out where rest: "run_loop gpio evs s1 = (effs', s2, out)"
      by (cases "run_loop gpio evs s1") auto
    have "filter is_init_attempt effs' = []"
      using Cons.IH [of s1] rest by simp
    then show ?thesis
      using st None rest e by simp
  next
    case (Some out)
    then show ?thesis
      using st e by simp
  qed
qed

lemma run_primary:
  "oled_init env 0x3C = None \<Longrightarrow>
     run env evs s =
       ([Init_attempt 0x3C, Print_init_ok 0x3C, Print_starting] @
          effects_of (run_loop (GPIO_AVAILABLE env) evs
            (load_fonts (truetype_ok env) (s\<lparr>device := Some 0x3C\<rparr>))),
        state_of (run_loop (GPIO_AVAILABLE env) evs
          (load_fonts (truetype_ok env) (s\<lparr>device := Some 0x3C\<rparr>))),
        outcome_of (run_loop (GPIO_AVAILABLE env) evs
          (load_fonts (truetype_ok env) (s\<lparr>device := Some 0x3C\<rparr>))))"
  by (simp add: run_def init_display_def split: prod.splits)

lemma run_fallback:
  "oled_init env 0x3C = Some e1 \<Longrightarrow> is_Exception e1 \<Longrightarrow> oled_init env 0x3D = None \<Longrightarrow>
     run env evs s =
       ([Init_attempt 0x3C, Init_attempt 0x3D, Print_init_ok 0x3D, Print_starting] @
          effects_of (run_loop (GPIO_AVAILABLE env) evs
            (load_fonts (truetype_ok env) (s\<lparr>device := Some 0x3D\<rparr>))),
        state_of (run_loop (GPIO_AVAILABLE env) evs
          (load_fonts (truetype_ok env) (s\<lparr>device := Some 0x3D\<rparr>))),
        outcome_of (run_loop (GPIO_AVAILABLE env) evs
          (load_fonts (truetype_ok env) (s\<lparr>device := Some 0x3D\<rparr>))))"
  by (simp add: run_def init_display_def split: prod.splits)

lemma run_both_fail:
  "oled_init env 0x3C = Some e1 \<Longrightarrow> is_Exception e1 \<Longrightarrow> oled_init env 0x3D = Some e2 \<Longrightarrow>
   is_Exception e2 \<Longrightarrow>
     run env evs s =
       ([Init_attempt 0x3C, Init_attempt 0x3D, Print_init_failed e1 e2], s, Returned)"
  by (simp add: run_def init_display_def)

lemma run_attempts:
  "filter is_init_attempt (effects_of (run env evs s)) = [Init_attempt 0x3C] \<or>
   filter is_init_attempt (effects_of (run env evs s)) = [Init_attempt 0x3C, Init_attempt 0x3D]"
proof (cases "oled_init env 0x3C")
  case None
  show ?thesis
    by (simp add: run_primary [OF None] run_loop_no_init)
next
  case e1: (Some e1)
  show ?thesis
  proof (cases "is_Exception e1")
    case False
    then show ?thesis
      using e1 by (simp add: run_def init_display_def)
  next
    case True
    show ?thesis
    proof (cases "oled_init env 0x3D")
      case None
      show ?thesis
        by (simp add: run_fallback [OF e1 True None] run_loop_no_init)
    next
      case e2: (Some e2)
      show ?thesis
        using e1 True e2 by (cases "is_Exception e2") (simp_all add: run_def init_display_def)
    qed
  qed
qed

text \<open>
  The callbacks run in a thread of their own, and a statement such as
  \<^verbatim>\<open>self.current_screen = (self.current_screen + 1) % self.total_screens\<close> reads and
  writes in two steps. Whatever value was read, the value written is in range: the next
  three facts hold of every object with four screens, also of one whose cursors are out of
  range. A write computed from a stale read therefore still stores a value in range.
\<close>

lemma callback_writes_in_range:
  "total_screens s = 4 \<Longrightarrow>
     current_screen (state_of (callback ev s)) = current_screen s \<or>
     current_screen (state_of (callback ev s)) \<in> {0, 1, 2, 3}"
proof -
  assume t: "total_screens s = 4"
  have r: "\<And>x::int. x mod 4 \<in> {0, 1, 2, 3}"
  proof -
    fix x :: int
    have "0 \<le> x mod 4 \<and> x mod 4 < 4" by simp
    then show "x mod 4 \<in> {0, 1, 2, 3}"
      by (simp only: insert_iff empty_iff) arith
  qed
  show ?thesis
    using t r
    by (cases ev)
      (simp_all add: next_screen_4 prev_screen_4 next_command_def prev_command_def
        execute_command_state Let_def split: sum.splits)
qed

lemma callback_selects_in_range:
  "selected_command (state_of (callback ev s)) = selected_command s \<or>
   0 \<le> selected_command (state_of (callback ev s)) \<and>
   selected_command (state_of (callback ev s)) < int (length (commands s))"
  by (cases ev)
    (auto simp: next_screen_def prev_screen_def next_command_def prev_command_def
      execute_command_state py_mod_def Let_def split: sum.splits)

lemma maybe_auto_advance_writes_in_range:
  "total_screens s = 4 \<Longrightarrow>
     fst (maybe_auto_advance now s) = s \<or>
     current_screen (fst (maybe_auto_advance now s)) \<in> {0, 1, 2, 3} \<and>
     selected_command (fst (maybe_auto_advance now s)) = selected_command s"
proof -
  assume t: "total_screens s = 4"
  have "0 \<le> (current_screen s + 1) mod 4 \<and> (current_screen s + 1) mod 4 < 4" by simp
  then have "(current_screen s + 1) mod 4 \<in> {0, 1, 2, 3}"
    by (simp only: insert_iff empty_iff) arith
  then show ?thesis
    using t by (simp add: maybe_auto_advance_def py_mod_nonzero)
qed

text \<open>
  While the command screen is shown \<open>last_button_press\<close> is never read: from two objects
  that differ in nothing else the program has the same effects and ends the same way, and
  the objects differ in nothing else afterwards, and not at all once the command screen
  has been left. Whether a callback sets the timestamp on the command screen cannot be
  observed.
\<close>

lemma loop_step_same_but_timestamp:
  assumes "same_but_timestamp s s'"
  shows "effects_of (loop_step gpio ev s') = effects_of (loop_step gpio ev s) \<and>
     outcome_of (loop_step gpio ev s') = outcome_of (loop_step gpio ev s) \<and>
     same_but_timestamp (state_of (loop_step gpio ev s)) (state_of (loop_step gpio ev s'))"
proof (cases "s' = s")
  case True
  then show ?thesis
    by (simp add: same_but_timestamp_def)
next
  case False
  then have c: "current_screen s = 3" and e: "s' = s\<lparr>last_button_press := last_button_press s'\<rparr>"
    using assms by (auto simp: same_but_timestamp_def)
  define x where "x = last_button_press s'"
  have s': "s' = s\<lparr>last_button_press := x\<rparr>"
    using e by (simp add: x_def)
  show ?thesis
    unfolding s'
    using c
    by (cases ev)
      (auto simp: loop_step_def leave_loop_def same_but_timestamp_def maybe_auto_advance_def
        draw_frame_def draw_command_screen_def next_screen_def prev_screen_def next_command_def
        prev_command_def execute_command_def execute_failed_def py_mod_def Let_def
        split: option.splits sum.splits exn.splits)
qed

lemma run_loop_same_but_timestamp:
  "same_but_timestamp s s' \<Longrightarrow>
     effects_of (run_loop gpio evs s') = effects_of (run_loop gpio evs s) \<and>
     outcome_of (run_loop gpio evs s') = outcome_of (run_loop gpio evs s) \<and>
     same_but_timestamp (state_of (run_loop gpio evs s)) (state_of (run_loop gpio evs s'))"
proof (induction evs arbitrary: s s')
  case Nil
  then show ?case by simp
next
  case (Cons ev evs)
  obtain effs s1 r where a: "loop_step gpio ev s = (effs, s1, r)"
    by (cases "loop_step gpio ev s") auto
  obtain effs' s1' r' where b: "loop_step gpio ev s' = (effs', s1', r')"
    by (cases "loop_step gpio ev s'") auto
  have st: "effs' = effs \<and> r' = r \<and> same_but_timestamp s1 s1'"
    using loop_step_same_but_timestamp [OF Cons.prems, of gpio ev] a b by simp
  show ?case
  proof (cases r)
    case None
    obtain effs2 s2 out where c: "run_loop gpio evs s1 = (effs2, s2, out)"
      by (cases "run_loop gpio evs s1") auto
    obtain effs2' s2' out' where d: "run_loop gpio evs s1' = (effs2', s2', out')"
      by (cases "run_loop gpio evs s1'") auto
    have "effs2' = effs2 \<and> out' = out \<and> same_but_timestamp s2 s2'"
      using Cons.IH [of s1 s1'] st c d by simp
    then show ?thesis
      using a b st None c d by simp
  next
    case (Some out)
    then show ?thesis
      using a b st by simp
  qed
qed

lemma timestamp_unread_on_command_screen:
  "current_screen s = 3 \<Longrightarrow>
     effects_of (run_loop gpio evs (s\<lparr>last_button_press := x\<rparr>)) =
       effects_of (run_loop gpio evs s) \<and>
     outcome_of (run_loop gpio evs (s\<lparr>last_button_press := x\<rparr>)) =
       outcome_of (run_loop gpio evs s) \<and>
     same_but_timestamp (state_of (run_loop gpio evs s))
       (state_of (run_loop gpio evs (s\<lparr>last_button_press := x\<rparr>)))"
  by (rule run_loop_same_but_timestamp) (simp add: same_but_timestamp_def)

subsection \<open>The navigation state stays in range\<close>

text \<open>
  C1. Start from the object \<^verbatim>\<open>__init__\<close> builds and let any events happen, in any order:
  presses of the five buttons and passes of the loop (each with its auto-advance). In the
  object afterwards \<open>current_screen\<close> is one of 0, 1, 2, 3 and \<open>selected_command\<close> is at
  least 0 and below the number of commands. The events are arbitrary, so this holds after
  every prefix of them, that is at every point at which the object can be read. It holds
  for the loop entered directly and for the whole program \<open>main\<close>. The events are
  whole calls; \<open>callback_writes_in_range\<close>, \<open>callback_selects_in_range\<close> and
  \<open>maybe_auto_advance_writes_in_range\<close> above cover a call that is interrupted between
  its read and its write.
\<close>

theorem navigation_state_in_range:
  "current_screen (state_of (run_loop gpio evs (SystemMonitor_init now))) \<in> {0, 1, 2, 3} \<and>
   0 \<le> selected_command (state_of (run_loop gpio evs (SystemMonitor_init now))) \<and>
   selected_command (state_of (run_loop gpio evs (SystemMonitor_init now)))
     < int (length (commands (state_of (run_loop gpio evs (SystemMonitor_init now))))) \<and>
   current_screen (state_of (main env now evs)) \<in> {0, 1, 2, 3} \<and>
   0 \<le> selected_command (state_of (main env now evs)) \<and>
   selected_command (state_of (main env now evs))
     < int (length (commands (state_of (main env now evs))))"
proof -
  have a: "well_formed (state_of (run_loop gpio evs (SystemMonitor_init now)))"
    by (simp add: run_loop_wf well_formed_init)
  have b: "well_formed (state_of (main env now evs))"
    by (rule main_wf)
  have r: "\<And>s::'a SystemMonitor. well_formed s \<Longrightarrow>
      current_screen s \<in> {0, 1, 2, 3} \<and> 0 \<le> selected_command s \<and>
      selected_command s < int (length (commands s))"
    by (auto simp: well_formed_def)
  show ?thesis
    using r [OF a] r [OF b] by simp
qed

subsection \<open>Panel navigation\<close>

text \<open>
  C2. For every sequence of presses of Left (\<open>prev_screen\<close>) and Right (\<open>next_screen\<close>)
  on the object \<^verbatim>\<open>__init__\<close> builds, \<open>current_screen\<close> afterwards is the number of Rights
  less the number of Lefts, modulo 4, hence one of 0, 1, 2, 3. One call moves by exactly one
  modulo 4: \<open>next_screen\<close> on screen 3 gives screen 0 and \<open>prev_screen\<close> on screen 0 gives
  screen 3. From the initial object, one, two and three presses of Right give screens 1, 2
  and 3.
\<close>

theorem panel_navigation_cycles:
  "(list_all is_panel_button evs \<longrightarrow>
      current_screen (state_of (run_loop gpio evs (SystemMonitor_init now))) = net_advance evs mod 4 \<and>
      current_screen (state_of (run_loop gpio evs (SystemMonitor_init now))) \<in> {0, 1, 2, 3}) \<and>
   (total_screens s = 4 \<longrightarrow>
      current_screen (state_of (next_screen t s)) = (current_screen s + 1) mod 4 \<and>
      current_screen (state_of (prev_screen t s)) = (current_screen s - 1) mod 4) \<and>
   (total_screens s = 4 \<and> current_screen s = 3 \<longrightarrow>
      current_screen (state_of (next_screen t s)) = 0) \<and>
   (total_screens s = 4 \<and> current_screen s = 0 \<longrightarrow>
      current_screen (state_of (prev_screen t s)) = 3) \<and>
   current_screen (SystemMonitor_init now) = 0 \<and>
   current_screen (state_of (run_loop gpio [Button_R t1] (SystemMonitor_init now))) = 1 \<and>
   current_screen (state_of (run_loop gpio [Button_R t1, Button_R t2] (SystemMonitor_init now))) = 2 \<and>
   current_screen (state_of (run_loop gpio [Button_R t1, Button_R t2, Button_R t3]
     (SystemMonitor_init now))) = 3"
proof -
  have seq: "list_all is_panel_button evs \<longrightarrow>
      current_screen (state_of (run_loop gpio evs (SystemMonitor_init now))) = net_advance evs mod 4 \<and>
      current_screen (state_of (run_loop gpio evs (SystemMonitor_init now))) \<in> {0, 1, 2, 3}"
  proof
    assume a: "list_all is_panel_button evs"
    have r: "0 \<le> net_advance evs mod 4 \<and> net_advance evs mod 4 < 4"
      by simp
    then have "net_advance evs mod 4 \<in> {0, 1, 2, 3}"
      by (simp only: insert_iff empty_iff) arith
    then show "current_screen (state_of (run_loop gpio evs (SystemMonitor_init now))) = net_advance evs mod 4 \<and>
      current_screen (state_of (run_loop gpio evs (SystemMonitor_init now))) \<in> {0, 1, 2, 3}"
      using run_loop_init_panel [OF a, of gpio now] by simp
  qed
  have one: "total_screens s = 4 \<longrightarrow>
      current_screen (state_of (next_screen t s)) = (current_screen s + 1) mod 4 \<and>
      current_screen (state_of (prev_screen t s)) = (current_screen s - 1) mod 4"
    by (simp add: next_screen_4 prev_screen_4)
  have wrap_next: "total_screens s = 4 \<and> current_screen s = 3 \<longrightarrow>
      current_screen (state_of (next_screen t s)) = 0"
    by (simp add: next_screen_4)
  have wrap_prev: "total_screens s = 4 \<and> current_screen s = 0 \<longrightarrow>
      current_screen (state_of (prev_screen t s)) = 3"
    by (simp add: prev_screen_4)
  have i: "current_screen (SystemMonitor_init now) = 0"
    by (simp add: SystemMonitor_init_def)
  have s1: "current_screen (state_of (run_loop gpio [Button_R t1] (SystemMonitor_init now))) = 1"
    using run_loop_init_panel [of "[Button_R t1]" gpio now] by simp
  have s2: "current_screen (state_of (run_loop gpio [Button_R t1, Button_R t2]
      (SystemMonitor_init now))) = 2"
    using run_loop_init_panel [of "[Button_R t1, Button_R t2]" gpio now] by simp
  have s3: "current_screen (state_of (run_loop gpio [Button_R t1, Button_R t2, Button_R t3]
      (SystemMonitor_init now))) = 3"
    using run_loop_init_panel [of "[Button_R t1, Button_R t2, Button_R t3]" gpio now] by simp
  show ?thesis
    using seq one wrap_next wrap_prev i s1 s2 s3 by blast
qed

theorem panel_navigation_cycles_witness:
  "list_all is_panel_button [Button_R (1::int), Button_L 2, Button_L 3] \<and>
   current_screen (state_of (run_loop True [Button_R 1, Button_L 2, Button_L 3]
     (SystemMonitor_init (0::int)))) = 3 \<and>
   total_screens ((SystemMonitor_init (0::int))\<lparr>current_screen := 3\<rparr>) = 4 \<and>
   current_screen ((SystemMonitor_init (0::int))\<lparr>current_screen := 3\<rparr>) = 3 \<and>
   current_screen (state_of (next_screen (5::int)
     ((SystemMonitor_init 0)\<lparr>current_screen := 3\<rparr>))) = 0"
proof -
  have evs: "list_all is_panel_button [Button_R (1::int), Button_L 2, Button_L 3]"
    by simp
  have st: "total_screens ((SystemMonitor_init (0::int))\<lparr>current_screen := 3\<rparr>) = 4 \<and>
      current_screen ((SystemMonitor_init (0::int))\<lparr>current_screen := 3\<rparr>) = 3"
    by (simp add: SystemMonitor_init_def)
  note inst = panel_navigation_cycles [where evs = "[Button_R (1::int), Button_L 2, Button_L 3]"
      and gpio = True and now = "0::int" and t = "5::int"
      and s = "(SystemMonitor_init (0::int))\<lparr>current_screen := 3\<rparr>"]
  have a: "current_screen (state_of (run_loop True [Button_R 1, Button_L 2, Button_L 3]
     (SystemMonitor_init (0::int)))) = net_advance [Button_R (1::int), Button_L 2, Button_L 3] mod 4"
    using inst evs by blast
  have b: "current_screen (state_of (next_screen (5::int)
     ((SystemMonitor_init 0)\<lparr>current_screen := 3\<rparr>))) = 0"
    using inst st by blast
  have n: "net_advance [Button_R (1::int), Button_L 2, Button_L 3] mod 4 = 3"
    by simp
  have a': "current_screen (state_of (run_loop True [Button_R 1, Button_L 2, Button_L 3]
     (SystemMonitor_init (0::int)))) = 3"
    using a n by (simp only:)
  show ?thesis
    using evs st a' b by blast
qed

subsection \<open>Command selection\<close>

text \<open>
  C3. Off the command screen (\<open>current_screen \<noteq> 3\<close>) \<open>next_command\<close> and \<open>prev_command\<close>
  have no effect at all: no output, the same object, a normal return. On the command
  screen, with a command list that is not empty, they set \<open>selected_command\<close> to its value
  plus or minus one modulo the length of the list, set \<open>last_button_press\<close> to the time
  read, and change nothing else. The list of the program has two entries: on the command
  screen (three presses of Right after the start) one, two and three presses of Down
  select entry 1, 0 and 1.
\<close>

theorem command_selection:
  "(current_screen s \<noteq> 3 \<longrightarrow>
      next_command now s = ([], s, None) \<and> prev_command now s = ([], s, None)) \<and>
   (current_screen s = 3 \<and> commands s \<noteq> [] \<longrightarrow>
      state_of (next_command now s) =
        s\<lparr>selected_command := (selected_command s + 1) mod int (length (commands s)),
          last_button_press := now\<rparr> \<and>
      outcome_of (next_command now s) = None \<and>
      state_of (prev_command now s) =
        s\<lparr>selected_command := (selected_command s - 1) mod int (length (commands s)),
          last_button_press := now\<rparr> \<and>
      outcome_of (prev_command now s) = None) \<and>
   length (commands (SystemMonitor_init t0)) = 2 \<and>
   selected_command (SystemMonitor_init t0) = 0 \<and>
   selected_command (state_of (run_loop gpio
     [Button_R t1, Button_R t2, Button_R t3, Button_B t4] (SystemMonitor_init t0))) = 1 \<and>
   selected_command (state_of (run_loop gpio
     [Button_R t1, Button_R t2, Button_R t3, Button_B t4, Button_B t5] (SystemMonitor_init t0))) = 0 \<and>
   selected_command (state_of (run_loop gpio
     [Button_R t1, Button_R t2, Button_R t3, Button_B t4, Button_B t5, Button_B t6]
     (SystemMonitor_init t0))) = 1"
proof -
  have off: "current_screen s \<noteq> 3 \<longrightarrow>
      next_command now s = ([], s, None) \<and> prev_command now s = ([], s, None)"
    by (simp add: next_command_def prev_command_def)
  have on: "current_screen s = 3 \<and> commands s \<noteq> [] \<longrightarrow>
      state_of (next_command now s) =
        s\<lparr>selected_command := (selected_command s + 1) mod int (length (commands s)),
          last_button_press := now\<rparr> \<and>
      outcome_of (next_command now s) = None \<and>
      state_of (prev_command now s) =
        s\<lparr>selected_command := (selected_command s - 1) mod int (length (commands s)),
          last_button_press := now\<rparr> \<and>
      outcome_of (prev_command now s) = None"
    by (simp add: next_command_on_commands prev_command_on_commands)
  have reg: "length (commands (SystemMonitor_init t0)) = 2 \<and>
      selected_command (SystemMonitor_init t0) = 0"
    by (simp add: SystemMonitor_init_def)
  have d1: "selected_command (state_of (run_loop gpio
      [Button_R t1, Button_R t2, Button_R t3, Button_B t4] (SystemMonitor_init t0))) = 1"
    by (simp add: run_loop_button_Cons next_screen_4 next_command_on_commands
        SystemMonitor_init_def del: run_loop.simps(2))
  have d2: "selected_command (state_of (run_loop gpio
      [Button_R t1, Button_R t2, Button_R t3, Button_B t4, Button_B t5]
      (SystemMonitor_init t0))) = 0"
    by (simp add: run_loop_button_Cons next_screen_4 next_command_on_commands
        SystemMonitor_init_def del: run_loop.simps(2))
  have d3: "selected_command (state_of (run_loop gpio
      [Button_R t1, Button_R t2, Button_R t3, Button_B t4, Button_B t5, Button_B t6]
      (SystemMonitor_init t0))) = 1"
    by (simp add: run_loop_button_Cons next_screen_4 next_command_on_commands
        SystemMonitor_init_def del: run_loop.simps(2))
  show ?thesis
    using off on reg d1 d2 d3 by blast
qed

theorem command_selection_witness:
  "current_screen (SystemMonitor_init (0::int)) \<noteq> 3 \<and>
   next_command (7::int) (SystemMonitor_init 0) = ([], SystemMonitor_init 0, None) \<and>
   prev_command (7::int) (SystemMonitor_init 0) = ([], SystemMonitor_init 0, None) \<and>
   current_screen ((SystemMonitor_init (0::int))\<lparr>current_screen := 3\<rparr>) = 3 \<and>
   commands ((SystemMonitor_init (0::int))\<lparr>current_screen := 3\<rparr>) \<noteq> [] \<and>
   state_of (prev_command (7::int) ((SystemMonitor_init 0)\<lparr>current_screen := 3\<rparr>)) =
     (SystemMonitor_init 0)\<lparr>current_screen := 3, selected_command := 1, last_button_press := 7\<rparr>"
proof -
  have h1: "current_screen (SystemMonitor_init (0::int)) \<noteq> 3"
    by (simp add: SystemMonitor_init_def)
  have h2: "current_screen ((SystemMonitor_init (0::int))\<lparr>current_screen := 3\<rparr>) = 3 \<and>
      commands ((SystemMonitor_init (0::int))\<lparr>current_screen := 3\<rparr>) \<noteq> []"
    by (simp add: SystemMonitor_init_def)
  have a: "next_command (7::int) (SystemMonitor_init 0) = ([], SystemMonitor_init 0, None) \<and>
      prev_command (7::int) (SystemMonitor_init 0) = ([], SystemMonitor_init 0, None)"
    using command_selection [where s = "SystemMonitor_init (0::int)" and now = 7] h1 by blast
  have b: "state_of (prev_command (7::int) ((SystemMonitor_init 0)\<lparr>current_screen := 3\<rparr>)) =
      ((SystemMonitor_init 0)\<lparr>current_screen := 3\<rparr>)
        \<lparr>selected_command :=
           (selected_command ((SystemMonitor_init (0::int))\<lparr>current_screen := 3\<rparr>) - 1) mod
           int (length (commands ((SystemMonitor_init (0::int))\<lparr>current_screen := 3\<rparr>))),
         last_button_press := 7\<rparr>"
    using command_selection
      [where s = "(SystemMonitor_init (0::int))\<lparr>current_screen := 3\<rparr>" and now = 7] h2
    by blast
  have c: "(selected_command ((SystemMonitor_init (0::int))\<lparr>current_screen := 3\<rparr>) - 1) mod
      int (length (commands ((SystemMonitor_init (0::int))\<lparr>current_screen := 3\<rparr>))) = 1"
    by (simp add: SystemMonitor_init_def)
  have b': "state_of (prev_command (7::int) ((SystemMonitor_init 0)\<lparr>current_screen := 3\<rparr>)) =
      (SystemMonitor_init 0)\<lparr>current_screen := 3, selected_command := 1, last_button_press := 7\<rparr>"
    using b unfolding c by simp
  show ?thesis
    using h1 h2 a b' by blast
qed

subsection \<open>Auto-advance\<close>

text \<open>
  C4. The threshold is the attribute \<open>auto_advance_interval\<close>, the time of the tick the
  reading of the clock at the start of the pass. In an object with four screens, the
  auto-advance of a pass moves \<open>current_screen\<close>
  one step on (modulo 4) and sets \<open>last_button_press\<close> to the time of the pass exactly when
  \<open>auto_advance\<close> is set, the screen is not the command screen and the time since
  \<open>last_button_press\<close> exceeds \<open>auto_advance_interval\<close>; it leaves the object as it is
  exactly when that condition fails. A pass of the loop changes the object by this one
  auto-advance and nothing else, whatever becomes of its frame, so the screen after a pass
  is the screen before or the next one.
\<close>

theorem auto_advance_exactly_when_idle:
  "total_screens s = 4 \<Longrightarrow>
   ((maybe_auto_advance now s =
       (s\<lparr>current_screen := (current_screen s + 1) mod 4, last_button_press := now\<rparr>, None)) =
     (auto_advance s \<and> current_screen s \<noteq> 3 \<and>
      now - last_button_press s > auto_advance_interval s)) \<and>
   ((maybe_auto_advance now s = (s, None)) =
     (\<not> (auto_advance s \<and> current_screen s \<noteq> 3 \<and>
      now - last_button_press s > auto_advance_interval s))) \<and>
   state_of (loop_step gpio (Tick now submit sleep) s) = fst (maybe_auto_advance now s) \<and>
   (current_screen (state_of (loop_step gpio (Tick now submit sleep) s)) = current_screen s \<or>
    current_screen (state_of (loop_step gpio (Tick now submit sleep) s)) =
      (current_screen s + 1) mod 4)"
proof (cases "idle_too_long now s")
  case True
  assume t: "total_screens s = 4"
  note f = maybe_auto_advance_fires [OF t True]
  have st: "state_of (loop_step gpio (Tick now submit sleep) s) = fst (maybe_auto_advance now s)"
    by (simp add: loop_step_state)
  show ?thesis
    using True advanced_differs [where s = s and now = now] unfolding st f
    by (simp add: idle_too_long_def)
next
  case False
  note r = maybe_auto_advance_rests [OF False]
  have st: "state_of (loop_step gpio (Tick now submit sleep) s) = fst (maybe_auto_advance now s)"
    by (simp add: loop_step_state)
  have ne: "s \<noteq> s\<lparr>current_screen := (current_screen s + 1) mod 4, last_button_press := now\<rparr>"
    using advanced_differs [where s = s and now = now] by simp
  show ?thesis
    using False ne unfolding st r
    by (simp add: idle_too_long_def)
qed

theorem auto_advance_exactly_when_idle_witness:
  "total_screens (SystemMonitor_init (0::int)) = 4 \<and>
   maybe_auto_advance (11::int) (SystemMonitor_init 0) =
     ((SystemMonitor_init 0)\<lparr>current_screen := 1, last_button_press := 11\<rparr>, None) \<and>
   maybe_auto_advance (10::int) (SystemMonitor_init 0) = (SystemMonitor_init 0, None)"
proof -
  have t: "total_screens (SystemMonitor_init (0::int)) = 4"
    by (simp add: SystemMonitor_init_def)
  have c11: "auto_advance (SystemMonitor_init (0::int)) \<and>
      current_screen (SystemMonitor_init (0::int)) \<noteq> 3 \<and>
      11 - last_button_press (SystemMonitor_init (0::int))
        > auto_advance_interval (SystemMonitor_init (0::int))"
    by (simp add: SystemMonitor_init_def)
  have c10: "\<not> (auto_advance (SystemMonitor_init (0::int)) \<and>
      current_screen (SystemMonitor_init (0::int)) \<noteq> 3 \<and>
      10 - last_button_press (SystemMonitor_init (0::int))
        > auto_advance_interval (SystemMonitor_init (0::int)))"
    by (simp add: SystemMonitor_init_def)
  have a: "maybe_auto_advance (11::int) (SystemMonitor_init 0) =
      ((SystemMonitor_init 0)\<lparr>current_screen := (current_screen (SystemMonitor_init (0::int)) + 1) mod 4,
         last_button_press := 11\<rparr>, None)"
    using auto_advance_exactly_when_idle [OF t, of 11] c11 by blast
  have b: "maybe_auto_advance (10::int) (SystemMonitor_init 0) = (SystemMonitor_init 0, None)"
    using auto_advance_exactly_when_idle [OF t, of 10] c10 by blast
  have v: "(current_screen (SystemMonitor_init (0::int)) + 1) mod 4 = 1"
    by (simp add: SystemMonitor_init_def)
  show ?thesis
    using t a b unfolding v by blast
qed

subsection \<open>No auto-advance on the command screen\<close>

text \<open>
  C5. On the command screen (\<open>current_screen = 3\<close>) the auto-advance leaves the object as it
  is, for every reading of the clock and every interval; so does a whole pass of the loop,
  and so does every sequence of passes, however long.
\<close>

theorem no_auto_advance_on_command_screen:
  "current_screen s = 3 \<Longrightarrow>
     maybe_auto_advance now s = (s, None) \<and>
     state_of (loop_step gpio (Tick now submit sleep) s) = s \<and>
     (list_all is_tick evs \<longrightarrow> state_of (run_loop gpio evs s) = s)"
proof -
  assume c: "current_screen s = 3"
  have one: "\<And>ev s'. is_tick ev \<Longrightarrow> s' = s \<Longrightarrow> state_of (loop_step gpio ev s') = s"
  proof -
    fix ev :: "'a event" and s'
    assume "is_tick ev" and "s' = s"
    then show "state_of (loop_step gpio ev s') = s"
      using c by (cases ev) (simp_all add: loop_step_state maybe_auto_advance_on_commands)
  qed
  have many: "list_all is_tick evs \<longrightarrow> state_of (run_loop gpio evs s) = s"
  proof
    assume l: "list_all is_tick evs"
    show "state_of (run_loop gpio evs s) = s"
    proof (rule run_loop_preserves_on [where Q = is_tick and P = "\<lambda>s'. s' = s"])
      show "list_all is_tick evs" by fact
      show "s = s" by simp
      fix ev :: "'a event" and s'
      assume "is_tick ev" and "s' = s"
      then show "state_of (loop_step gpio ev s') = s" by (rule one)
    qed
  qed
  show ?thesis
    using many one [of "Tick now submit sleep" s] maybe_auto_advance_on_commands [OF c]
    by simp
qed

theorem no_auto_advance_on_command_screen_witness:
  "current_screen ((SystemMonitor_init (0::int))\<lparr>current_screen := 3\<rparr>) = 3 \<and>
   maybe_auto_advance (1000000::int) ((SystemMonitor_init 0)\<lparr>current_screen := 3\<rparr>) =
     ((SystemMonitor_init 0)\<lparr>current_screen := 3\<rparr>, None) \<and>
   list_all is_tick [Tick (1000::int) None None, Tick 2000 None None] \<and>
   state_of (run_loop True [Tick (1000::int) None None, Tick 2000 None None]
     ((SystemMonitor_init 0)\<lparr>current_screen := 3\<rparr>)) =
     (SystemMonitor_init 0)\<lparr>current_screen := 3\<rparr>"
proof -
  have c: "current_screen ((SystemMonitor_init (0::int))\<lparr>current_screen := 3\<rparr>) = 3"
    by simp
  have l: "list_all is_tick [Tick (1000::int) None None, Tick 2000 None None]"
    by simp
  show ?thesis
    using no_auto_advance_on_command_screen
      [OF c, where now = 1000000 and gpio = True
        and evs = "[Tick (1000::int) None None, Tick 2000 None None]"] c l
    by blast
qed

subsection \<open>Executing the selected command\<close>

text \<open>
  C6. \<open>execute_command\<close> is the one button callback that does not set
  \<open>last_button_press\<close>: lines 83, 90, 117 and 123 set it in the other four, and lines 93 to
  112 hold no such assignment. Build the object at time 0 and press Right at times 1, 2
  and 3: the command screen is shown and \<open>last_button_press\<close> is 3. A press of Center now
  announces, shows and runs the selected command, "sudo reboot", and \<open>last_button_press\<close>
  is still 3, where a press of Up or Down at time 9 sets it to 9.
\<close>

theorem execute_command_leaves_timestamp:
  "current_screen (state_of (run_loop True [Button_R 1, Button_R 2, Button_R 3]
     (SystemMonitor_init (0::int)))) = 3 \<and>
   last_button_press (state_of (run_loop True [Button_R 1, Button_R 2, Button_R 3]
     (SystemMonitor_init (0::int)))) = 3 \<and>
   effects_of (execute_command
     \<lparr>canvas_executing = None, subprocess_result = None, canvas_error = None\<rparr>
     (state_of (run_loop True [Button_R 1, Button_R 2, Button_R 3]
       (SystemMonitor_init (0::int))))) =
     [Print_executing ''Restart'', Show_executing ''Restart'', Subprocess_run ''sudo reboot''] \<and>
   last_button_press (state_of (execute_command
     \<lparr>canvas_executing = None, subprocess_result = None, canvas_error = None\<rparr>
     (state_of (run_loop True [Button_R 1, Button_R 2, Button_R 3]
       (SystemMonitor_init (0::int)))))) = 3 \<and>
   last_button_press (state_of (next_command 9
     (state_of (run_loop True [Button_R 1, Button_R 2, Button_R 3]
       (SystemMonitor_init (0::int)))))) = 9 \<and>
   last_button_press (state_of (prev_command 9
     (state_of (run_loop True [Button_R 1, Button_R 2, Button_R 3]
       (SystemMonitor_init (0::int)))))) = 9 \<and>
   last_button_press (state_of (run_loop True
     [Button_R 1, Button_R 2, Button_R 3,
      Button_C \<lparr>canvas_executing = None, subprocess_result = None, canvas_error = None\<rparr>]
     (SystemMonitor_init (0::int)))) = 3 \<and>
   last_button_press (state_of (run_loop True
     [Button_R 1, Button_R 2, Button_R 3, Button_B 9]
     (SystemMonitor_init (0::int)))) = 9"
proof -
  let ?env = "\<lparr>canvas_executing = None, subprocess_result = None, canvas_error = None\<rparr>"
  let ?s3 = "(SystemMonitor_init (0::int))\<lparr>current_screen := 3, last_button_press := 3\<rparr>"
  have s3: "state_of (run_loop True [Button_R 1, Button_R 2, Button_R 3]
      (SystemMonitor_init (0::int))) = ?s3"
    by (simp add: run_loop_button_Cons next_screen_4 SystemMonitor_init_def
        del: run_loop.simps(2))
  have c: "state_of (run_loop True [Button_R 1, Button_R 2, Button_R 3, Button_C ?env]
      (SystemMonitor_init (0::int))) = state_of (execute_command ?env ?s3)"
    by (simp add: run_loop_button_Cons next_screen_4 SystemMonitor_init_def
        del: run_loop.simps(2))
  have b: "state_of (run_loop True [Button_R 1, Button_R 2, Button_R 3, Button_B 9]
      (SystemMonitor_init (0::int))) = state_of (next_command 9 ?s3)"
    by (simp add: run_loop_button_Cons next_screen_4 SystemMonitor_init_def
        del: run_loop.simps(2))
  have ent: "py_getitem (commands ?s3) (selected_command ?s3) = Inr (''Restart'', ''sudo reboot'')"
    by (simp add: SystemMonitor_init_def py_getitem_def)
  have e: "execute_command ?env ?s3 =
      ([Print_executing ''Restart'', Show_executing ''Restart'', Subprocess_run ''sudo reboot''],
       ?s3, None)"
    using execute_command_succeeds [of ?s3 "(''Restart'', ''sudo reboot'')" ?env] ent by simp
  have n: "last_button_press (state_of (next_command 9 ?s3)) = 9"
    by (simp add: next_command_on_commands SystemMonitor_init_def)
  have p: "last_button_press (state_of (prev_command 9 ?s3)) = 9"
    by (simp add: prev_command_on_commands SystemMonitor_init_def)
  show ?thesis
    unfolding s3 c b e using n p by simp
qed

subsection \<open>What executing a command does\<close>

text \<open>
  The rest of C6 holds of the code, for every object and every outcome of the display and
  of the subprocess. \<open>execute_command\<close> gives back the object it was given, so
  \<open>current_screen\<close> and \<open>selected_command\<close> are as before. Off the command screen it has
  no effect at all. On the command screen, when the indexing of \<open>commands\<close> fails it raises
  before any effect. Otherwise let \<open>entry\<close> be what the indexing gives, the entry at
  \<open>selected_command\<close> when that is in range: the first effect is the console line of
  \<open>entry\<close>; every console line, every "Executing..." display and every process started is
  that of \<open>entry\<close> and of no other command; the process is started exactly when the display
  succeeded; and when the process succeeds too, the effects are exactly these three.
\<close>

theorem execute_command_selects_entry:
  "state_of (execute_command env s) = s \<and>
   (current_screen s \<noteq> 3 \<longrightarrow> execute_command env s = ([], s, None)) \<and>
   (0 \<le> selected_command s \<and> selected_command s < int (length (commands s)) \<longrightarrow>
      py_getitem (commands s) (selected_command s) = Inr (commands s ! nat (selected_command s))) \<and>
   (current_screen s = 3 \<and> py_getitem (commands s) (selected_command s) = Inl e \<longrightarrow>
      execute_command env s = ([], s, Some e)) \<and>
   (current_screen s = 3 \<and> py_getitem (commands s) (selected_command s) = Inr entry \<longrightarrow>
      (\<exists>rest. effects_of (execute_command env s) = Print_executing (fst entry) # rest) \<and>
      (\<forall>l. Print_executing l \<in> set (effects_of (execute_command env s)) \<longrightarrow> l = fst entry) \<and>
      (\<forall>l. Show_executing l \<in> set (effects_of (execute_command env s)) \<longrightarrow> l = fst entry) \<and>
      (\<forall>c. Subprocess_run c \<in> set (effects_of (execute_command env s)) \<longrightarrow> c = snd entry) \<and>
      (Subprocess_run (snd entry) \<in> set (effects_of (execute_command env s))) =
        (canvas_executing env = None) \<and>
      (canvas_executing env = None \<and> subprocess_result env = None \<longrightarrow>
         execute_command env s =
           ([Print_executing (fst entry), Show_executing (fst entry),
             Subprocess_run (snd entry)], s, None)))"
proof -
  have c1: "state_of (execute_command env s) = s"
    by (rule execute_command_state)
  have c2: "current_screen s \<noteq> 3 \<longrightarrow> execute_command env s = ([], s, None)"
    by (simp add: execute_command_off)
  have c3: "0 \<le> selected_command s \<and> selected_command s < int (length (commands s)) \<longrightarrow>
      py_getitem (commands s) (selected_command s) = Inr (commands s ! nat (selected_command s))"
    by (simp add: py_getitem_in_range)
  have c4: "current_screen s = 3 \<and> py_getitem (commands s) (selected_command s) = Inl e \<longrightarrow>
      execute_command env s = ([], s, Some e)"
    by (simp add: execute_command_no_entry)
  have c5: "current_screen s = 3 \<and> py_getitem (commands s) (selected_command s) = Inr entry \<longrightarrow>
      (\<exists>rest. effects_of (execute_command env s) = Print_executing (fst entry) # rest) \<and>
      (\<forall>l. Print_executing l \<in> set (effects_of (execute_command env s)) \<longrightarrow> l = fst entry) \<and>
      (\<forall>l. Show_executing l \<in> set (effects_of (execute_command env s)) \<longrightarrow> l = fst entry) \<and>
      (\<forall>c. Subprocess_run c \<in> set (effects_of (execute_command env s)) \<longrightarrow> c = snd entry) \<and>
      (Subprocess_run (snd entry) \<in> set (effects_of (execute_command env s))) =
        (canvas_executing env = None) \<and>
      (canvas_executing env = None \<and> subprocess_result env = None \<longrightarrow>
         execute_command env s =
           ([Print_executing (fst entry), Show_executing (fst entry),
             Subprocess_run (snd entry)], s, None))"
  proof (intro impI conjI allI)
    assume a: "current_screen s = 3 \<and> py_getitem (commands s) (selected_command s) = Inr entry"
    then have scr: "current_screen s = 3"
      and ent: "py_getitem (commands s) (selected_command s) = Inr entry"
      by simp_all
    show "\<exists>rest. effects_of (execute_command env s) = Print_executing (fst entry) # rest"
      by (rule execute_command_announces [OF scr ent])
    show "l = fst entry" if "Print_executing l \<in> set (effects_of (execute_command env s))" for l
      by (rule execute_command_announces_only_selected [OF ent that])
    show "l = fst entry" if "Show_executing l \<in> set (effects_of (execute_command env s))" for l
      by (rule execute_command_shows_only_selected [OF ent that])
    show "c = snd entry" if "Subprocess_run c \<in> set (effects_of (execute_command env s))" for c
      by (rule execute_command_runs_only_selected [OF ent that])
    show "(Subprocess_run (snd entry) \<in> set (effects_of (execute_command env s))) =
        (canvas_executing env = None)"
    proof (cases "canvas_executing env")
      case None
      then show ?thesis
        using execute_command_runs [OF scr ent None] by simp
    next
      case (Some x)
      then show ?thesis
        using execute_command_not_run [OF Some, of "snd entry" s] by simp
    qed
    show "execute_command env s =
        ([Print_executing (fst entry), Show_executing (fst entry), Subprocess_run (snd entry)],
         s, None)"
      if "canvas_executing env = None \<and> subprocess_result env = None"
      using execute_command_succeeds [OF scr ent] that by simp
  qed
  show ?thesis
    by (intro conjI) (fact c1, fact c2, fact c3, fact c4, fact c5)
qed

theorem execute_command_selects_entry_witness:
  "current_screen (SystemMonitor_init (0::int)) \<noteq> 3 \<and>
   execute_command \<lparr>canvas_executing = None, subprocess_result = None, canvas_error = None\<rparr>
     (SystemMonitor_init (0::int)) = ([], SystemMonitor_init 0, None) \<and>
   current_screen ((SystemMonitor_init (0::int))\<lparr>current_screen := 3, selected_command := 1\<rparr>) = 3 \<and>
   py_getitem (commands ((SystemMonitor_init (0::int))\<lparr>current_screen := 3, selected_command := 1\<rparr>))
     (selected_command ((SystemMonitor_init (0::int))\<lparr>current_screen := 3, selected_command := 1\<rparr>)) =
     Inr (''Shutdown'', ''sudo shutdown -h now'') \<and>
   execute_command \<lparr>canvas_executing = None, subprocess_result = None, canvas_error = None\<rparr>
     ((SystemMonitor_init (0::int))\<lparr>current_screen := 3, selected_command := 1\<rparr>) =
     ([Print_executing ''Shutdown'', Show_executing ''Shutdown'',
       Subprocess_run ''sudo shutdown -h now''],
      (SystemMonitor_init 0)\<lparr>current_screen := 3, selected_command := 1\<rparr>, None) \<and>
   Subprocess_run ''sudo shutdown -h now'' \<notin> set (effects_of (execute_command
     \<lparr>canvas_executing = Some (Other_exception ''no display''), subprocess_result = None,
        canvas_error = None\<rparr>
     ((SystemMonitor_init (0::int))\<lparr>current_screen := 3, selected_command := 1\<rparr>)))"
proof -
  let ?env = "\<lparr>canvas_executing = None, subprocess_result = None, canvas_error = None\<rparr>"
  let ?bad = "\<lparr>canvas_executing = Some (Other_exception ''no display''),
      subprocess_result = None, canvas_error = None\<rparr>"
  let ?s = "(SystemMonitor_init (0::int))\<lparr>current_screen := 3, selected_command := 1\<rparr>"
  let ?entry = "(''Shutdown'', ''sudo shutdown -h now'')"
  have h0: "current_screen (SystemMonitor_init (0::int)) \<noteq> 3"
    by (simp add: SystemMonitor_init_def)
  have h1: "current_screen ?s = 3"
    by simp
  have h2: "py_getitem (commands ?s) (selected_command ?s) = Inr ?entry"
    by (simp add: SystemMonitor_init_def py_getitem_def)
  have h12: "current_screen ?s = 3 \<and> py_getitem (commands ?s) (selected_command ?s) = Inr ?entry"
    using h1 h2 by (rule conjI)
  have h3: "canvas_executing ?env = None \<and> subprocess_result ?env = None"
    by simp
  have h4: "canvas_executing ?bad \<noteq> None"
    by simp
  note off = execute_command_selects_entry [of ?env "SystemMonitor_init (0::int)",
      THEN conjunct2, THEN conjunct1]
  have a: "execute_command ?env (SystemMonitor_init (0::int)) = ([], SystemMonitor_init 0, None)"
    using off h0 by (rule mp)
  note on = execute_command_selects_entry [of ?env ?s _ ?entry,
      THEN conjunct2, THEN conjunct2, THEN conjunct2, THEN conjunct2, THEN mp, OF h12]
  note ok = on [THEN conjunct2, THEN conjunct2, THEN conjunct2, THEN conjunct2, THEN conjunct2]
  have b0: "execute_command ?env ?s =
      ([Print_executing (fst ?entry), Show_executing (fst ?entry), Subprocess_run (snd ?entry)],
       ?s, None)"
    using ok h3 by (rule mp)
  have b: "execute_command ?env ?s =
      ([Print_executing ''Shutdown'', Show_executing ''Shutdown'',
        Subprocess_run ''sudo shutdown -h now''], ?s, None)"
    using b0 by (simp only: fst_conv snd_conv simp_thms)
  note on_bad = execute_command_selects_entry [of ?bad ?s _ ?entry,
      THEN conjunct2, THEN conjunct2, THEN conjunct2, THEN conjunct2, THEN mp, OF h12]
  note iff = on_bad [THEN conjunct2, THEN conjunct2, THEN conjunct2, THEN conjunct2,
      THEN conjunct1]
  have c0: "Subprocess_run (snd ?entry) \<notin> set (effects_of (execute_command ?bad ?s))"
    using iff h4 by (simp only: simp_thms)
  have c: "Subprocess_run ''sudo shutdown -h now'' \<notin> set (effects_of (execute_command ?bad ?s))"
    using c0 by (simp only: snd_conv simp_thms)
  show ?thesis
    by (intro conjI) (fact h0, fact a, fact h1, fact h2, fact b, fact c)
qed

subsection \<open>A frame that cannot be shown\<close>


subsection \<open>A frame that cannot be shown, as the code does it\<close>



subsection \<open>Opening the display\<close>

text \<open>
  C8. \<^verbatim>\<open>run\<close> tries the display at address 0x3C; when that fails with an
  \<^verbatim>\<open>Exception\<close>, it tries address 0x3D, once. When the first or the second attempt
  succeeds, the fonts are loaded and the loop is entered on the object with that device.
  When both fail, \<^verbatim>\<open>run\<close> prints the two errors and returns: the effects are the two
  attempts and that message, so no frame is shown and no event of the loop is looked at,
  whatever the events; the object is unchanged. In every run the attempts are 0x3C alone
  or 0x3C and then 0x3D, all before the loop: the loop never opens the display.
\<close>

theorem display_init_fallback:
  "(oled_init env 0x3C = None \<longrightarrow>
      run env evs s =
        ([Init_attempt 0x3C, Print_init_ok 0x3C, Print_starting] @
           effects_of (run_loop (GPIO_AVAILABLE env) evs
             (load_fonts (truetype_ok env) (s\<lparr>device := Some 0x3C\<rparr>))),
         state_of (run_loop (GPIO_AVAILABLE env) evs
           (load_fonts (truetype_ok env) (s\<lparr>device := Some 0x3C\<rparr>))),
         outcome_of (run_loop (GPIO_AVAILABLE env) evs
           (load_fonts (truetype_ok env) (s\<lparr>device := Some 0x3C\<rparr>))))) \<and>
   (oled_init env 0x3C = Some e1 \<and> is_Exception e1 \<and> oled_init env 0x3D = None \<longrightarrow>
      run env evs s =
        ([Init_attempt 0x3C, Init_attempt 0x3D, Print_init_ok 0x3D, Print_starting] @
           effects_of (run_loop (GPIO_AVAILABLE env) evs
             (load_fonts (truetype_ok env) (s\<lparr>device := Some 0x3D\<rparr>))),
         state_of (run_loop (GPIO_AVAILABLE env) evs
           (load_fonts (truetype_ok env) (s\<lparr>device := Some 0x3D\<rparr>))),
         outcome_of (run_loop (GPIO_AVAILABLE env) evs
           (load_fonts (truetype_ok env) (s\<lparr>device := Some 0x3D\<rparr>))))) \<and>
   (oled_init env 0x3C = Some e1 \<and> is_Exception e1 \<and>
    oled_init env 0x3D = Some e2 \<and> is_Exception e2 \<longrightarrow>
      run env evs s =
        ([Init_attempt 0x3C, Init_attempt 0x3D, Print_init_failed e1 e2], s, Returned)) \<and>
   (filter is_init_attempt (effects_of (run env evs s)) = [Init_attempt 0x3C] \<or>
    filter is_init_attempt (effects_of (run env evs s)) =
      [Init_attempt 0x3C, Init_attempt 0x3D]) \<and>
   filter is_init_attempt (effects_of (run_loop gpio evs s)) = []"
  using run_primary [of env evs s] run_fallback [of env e1 evs s]
    run_both_fail [of env e1 e2 evs s] run_attempts [of env evs s]
    run_loop_no_init [of gpio evs s]
  by blast

theorem display_init_fallback_witness:
  "oled_init \<lparr>oled_init = (\<lambda>a. Some (Other_exception ''no device'')),
      truetype_ok = (\<lambda>f. True), GPIO_AVAILABLE = True\<rparr> 0x3C =
     Some (Other_exception ''no device'') \<and>
   is_Exception (Other_exception ''no device'') \<and>
   oled_init \<lparr>oled_init = (\<lambda>a. Some (Other_exception ''no device'')),
      truetype_ok = (\<lambda>f. True), GPIO_AVAILABLE = True\<rparr> 0x3D =
     Some (Other_exception ''no device'') \<and>
   run \<lparr>oled_init = (\<lambda>a. Some (Other_exception ''no device'')),
      truetype_ok = (\<lambda>f. True), GPIO_AVAILABLE = True\<rparr>
     [Tick (20::int) None None, Button_R 21] (SystemMonitor_init 0) =
     ([Init_attempt 0x3C, Init_attempt 0x3D,
       Print_init_failed (Other_exception ''no device'') (Other_exception ''no device'')],
      SystemMonitor_init 0, Returned) \<and>
   oled_init \<lparr>oled_init = (\<lambda>a. if a = 0x3D then None else Some (Other_exception ''no device'')),
      truetype_ok = (\<lambda>f. False), GPIO_AVAILABLE = False\<rparr> 0x3D = None \<and>
   run \<lparr>oled_init = (\<lambda>a. if a = 0x3D then None else Some (Other_exception ''no device'')),
      truetype_ok = (\<lambda>f. False), GPIO_AVAILABLE = False\<rparr>
     [Tick (20::int) None None] (SystemMonitor_init 0) =
     ([Init_attempt 0x3C, Init_attempt 0x3D, Print_init_ok 0x3D, Print_starting,
       Show_frame Cpu_frame, Sleep 1],
      (SystemMonitor_init 0)\<lparr>current_screen := 1, last_button_press := 20,
         device := Some 0x3D, font := Some Default_font, small_font := Some Default_font\<rparr>,
      Running)"
proof -
  let ?e = "Other_exception ''no device''"
  let ?env1 = "\<lparr>oled_init = (\<lambda>a. Some ?e), truetype_ok = (\<lambda>f. True), GPIO_AVAILABLE = True\<rparr>"
  let ?env2 = "\<lparr>oled_init = (\<lambda>a. if a = 0x3D then None else Some ?e),
      truetype_ok = (\<lambda>f. False), GPIO_AVAILABLE = False\<rparr>"
  have h1: "oled_init ?env1 0x3C = Some ?e \<and> is_Exception ?e \<and> oled_init ?env1 0x3D = Some ?e \<and>
      is_Exception ?e"
    by simp
  have h2: "oled_init ?env2 0x3C = Some ?e \<and> is_Exception ?e \<and> oled_init ?env2 0x3D = None"
    by simp
  have a: "run ?env1 [Tick (20::int) None None, Button_R 21] (SystemMonitor_init 0) =
      ([Init_attempt 0x3C, Init_attempt 0x3D, Print_init_failed ?e ?e], SystemMonitor_init 0,
       Returned)"
    using display_init_fallback [where env = ?env1 and ?e1.0 = ?e and ?e2.0 = ?e
        and evs = "[Tick (20::int) None None, Button_R 21]" and s = "SystemMonitor_init 0"] h1
    by blast
  have loop: "run_loop (GPIO_AVAILABLE ?env2) [Tick (20::int) None None]
      (load_fonts (truetype_ok ?env2) ((SystemMonitor_init 0)\<lparr>device := Some 0x3D\<rparr>)) =
      ([Show_frame Cpu_frame, Sleep 1],
       (SystemMonitor_init 0)\<lparr>current_screen := 1, last_button_press := 20,
         device := Some 0x3D, font := Some Default_font, small_font := Some Default_font\<rparr>,
       Running)"
    by (simp add: loop_step_def maybe_auto_advance_def py_mod_def draw_frame_def load_fonts_def
        SystemMonitor_init_def)
  have b: "run ?env2 [Tick (20::int) None None] (SystemMonitor_init 0) =
      ([Init_attempt 0x3C, Init_attempt 0x3D, Print_init_ok 0x3D, Print_starting] @
         effects_of (run_loop (GPIO_AVAILABLE ?env2) [Tick (20::int) None None]
           (load_fonts (truetype_ok ?env2) ((SystemMonitor_init 0)\<lparr>device := Some 0x3D\<rparr>))),
       state_of (run_loop (GPIO_AVAILABLE ?env2) [Tick (20::int) None None]
         (load_fonts (truetype_ok ?env2) ((SystemMonitor_init 0)\<lparr>device := Some 0x3D\<rparr>))),
       outcome_of (run_loop (GPIO_AVAILABLE ?env2) [Tick (20::int) None None]
         (load_fonts (truetype_ok ?env2) ((SystemMonitor_init 0)\<lparr>device := Some 0x3D\<rparr>))))"
    using display_init_fallback [where env = ?env2 and ?e1.0 = ?e
        and evs = "[Tick (20::int) None None]" and s = "SystemMonitor_init 0"] h2
    by blast
  have b': "run ?env2 [Tick (20::int) None None] (SystemMonitor_init 0) =
      ([Init_attempt 0x3C, Init_attempt 0x3D, Print_init_ok 0x3D, Print_starting,
        Show_frame Cpu_frame, Sleep 1],
       (SystemMonitor_init 0)\<lparr>current_screen := 1, last_button_press := 20,
         device := Some 0x3D, font := Some Default_font, small_font := Some Default_font\<rparr>,
       Running)"
    using b unfolding loop by simp
  show ?thesis
    using h1 h2 a b' by blast
qed

subsection \<open>Panel navigation keeps the selection\<close>

text \<open>
  C9. \<open>next_screen\<close> and \<open>prev_screen\<close> change no attribute but \<open>current_screen\<close> and
  \<open>last_button_press\<close>: putting these two back gives the object before the call. In
  particular \<open>selected_command\<close> and \<open>auto_advance\<close> are unchanged, and they stay so over
  every sequence of presses of Left and Right: a selection made on the command screen is
  still there when the screen is left and entered again.
\<close>

theorem panel_navigation_keeps_selection:
  "(state_of (next_screen t s))\<lparr>current_screen := current_screen s,
      last_button_press := last_button_press s\<rparr> = s \<and>
   (state_of (prev_screen t s))\<lparr>current_screen := current_screen s,
      last_button_press := last_button_press s\<rparr> = s \<and>
   selected_command (state_of (next_screen t s)) = selected_command s \<and>
   selected_command (state_of (prev_screen t s)) = selected_command s \<and>
   auto_advance (state_of (next_screen t s)) = auto_advance s \<and>
   auto_advance (state_of (prev_screen t s)) = auto_advance s \<and>
   (list_all is_panel_button evs \<longrightarrow>
      (state_of (run_loop gpio evs s))\<lparr>current_screen := current_screen s,
         last_button_press := last_button_press s\<rparr> = s \<and>
      selected_command (state_of (run_loop gpio evs s)) = selected_command s \<and>
      auto_advance (state_of (run_loop gpio evs s)) = auto_advance s)"
proof -
  have n: "(state_of (next_screen t s))\<lparr>current_screen := current_screen s,
      last_button_press := last_button_press s\<rparr> = s"
    using callback_panel_frame [of "Button_R t" s] by simp
  have p: "(state_of (prev_screen t s))\<lparr>current_screen := current_screen s,
      last_button_press := last_button_press s\<rparr> = s"
    using callback_panel_frame [of "Button_L t" s] by simp
  have sel: "\<And>s' :: 'a SystemMonitor. s'\<lparr>current_screen := current_screen s,
      last_button_press := last_button_press s\<rparr> = s \<Longrightarrow>
      selected_command s' = selected_command s \<and> auto_advance s' = auto_advance s"
  proof -
    fix s' :: "'a SystemMonitor"
    assume e: "s'\<lparr>current_screen := current_screen s,
      last_button_press := last_button_press s\<rparr> = s"
    have "selected_command (s'\<lparr>current_screen := current_screen s,
      last_button_press := last_button_press s\<rparr>) = selected_command s'"
      by simp
    moreover have "auto_advance (s'\<lparr>current_screen := current_screen s,
      last_button_press := last_button_press s\<rparr>) = auto_advance s'"
      by simp
    ultimately show "selected_command s' = selected_command s \<and> auto_advance s' = auto_advance s"
      unfolding e by simp
  qed
  have step: "\<And>ev s'. is_panel_button ev \<Longrightarrow>
      s'\<lparr>current_screen := current_screen s, last_button_press := last_button_press s\<rparr> = s \<Longrightarrow>
      (state_of (loop_step gpio ev s'))\<lparr>current_screen := current_screen s,
        last_button_press := last_button_press s\<rparr> = s"
  proof -
    fix ev :: "'a event" and s' :: "'a SystemMonitor"
    assume b: "is_panel_button ev"
      and e: "s'\<lparr>current_screen := current_screen s,
        last_button_press := last_button_press s\<rparr> = s"
    have "is_button ev"
      using b by (cases ev) simp_all
    then have st: "state_of (loop_step gpio ev s') = state_of (callback ev s')"
      by (simp add: loop_step_button)
    have "(state_of (callback ev s'))\<lparr>current_screen := current_screen s,
        last_button_press := last_button_press s\<rparr> =
      ((state_of (callback ev s'))\<lparr>current_screen := current_screen s',
        last_button_press := last_button_press s'\<rparr>)\<lparr>current_screen := current_screen s,
        last_button_press := last_button_press s\<rparr>"
      by simp
    also have "\<dots> = s'\<lparr>current_screen := current_screen s,
        last_button_press := last_button_press s\<rparr>"
      by (simp only: callback_panel_frame [OF b])
    finally show "(state_of (loop_step gpio ev s'))\<lparr>current_screen := current_screen s,
        last_button_press := last_button_press s\<rparr> = s"
      unfolding st e .
  qed
  have seq: "list_all is_panel_button evs \<longrightarrow>
      (state_of (run_loop gpio evs s))\<lparr>current_screen := current_screen s,
         last_button_press := last_button_press s\<rparr> = s"
  proof
    assume l: "list_all is_panel_button evs"
    show "(state_of (run_loop gpio evs s))\<lparr>current_screen := current_screen s,
         last_button_press := last_button_press s\<rparr> = s"
    proof (rule run_loop_preserves_on [where Q = is_panel_button
            and P = "\<lambda>s'. s'\<lparr>current_screen := current_screen s,
              last_button_press := last_button_press s\<rparr> = s"])
      show "list_all is_panel_button evs" by fact
      show "s\<lparr>current_screen := current_screen s,
          last_button_press := last_button_press s\<rparr> = s" by simp
      fix ev :: "'a event" and s' :: "'a SystemMonitor"
      assume "is_panel_button ev"
        and "s'\<lparr>current_screen := current_screen s,
          last_button_press := last_button_press s\<rparr> = s"
      then show "(state_of (loop_step gpio ev s'))\<lparr>current_screen := current_screen s,
          last_button_press := last_button_press s\<rparr> = s" by (rule step)
    qed
  qed
  show ?thesis
    using n p sel [OF n] sel [OF p] seq sel [of "state_of (run_loop gpio evs s)"]
    by blast
qed

theorem panel_navigation_keeps_selection_witness:
  "list_all is_panel_button [Button_R (1::int), Button_R 2, Button_L 3] \<and>
   selected_command (state_of (run_loop True [Button_R (1::int), Button_R 2, Button_L 3]
     ((SystemMonitor_init 0)\<lparr>current_screen := 3, selected_command := 1\<rparr>))) = 1"
proof -
  have l: "list_all is_panel_button [Button_R (1::int), Button_R 2, Button_L 3]"
    by simp
  have "selected_command (state_of (run_loop True [Button_R (1::int), Button_R 2, Button_L 3]
     ((SystemMonitor_init 0)\<lparr>current_screen := 3, selected_command := 1\<rparr>))) =
     selected_command ((SystemMonitor_init (0::int))\<lparr>current_screen := 3, selected_command := 1\<rparr>)"
    using panel_navigation_keeps_selection
      [where evs = "[Button_R (1::int), Button_R 2, Button_L 3]" and gpio = True
        and s = "(SystemMonitor_init (0::int))\<lparr>current_screen := 3, selected_command := 1\<rparr>"] l
    by blast
  then show ?thesis
    using l by simp
qed

subsection \<open>The auto-advance flag\<close>

text \<open>
  C10. \<^verbatim>\<open>__init__\<close> sets \<open>auto_advance\<close>, and nothing changes it: none of the five
  callbacks, not the auto-advance of the loop, no sequence of events in the loop, not
  \<^verbatim>\<open>run\<close>. In every object the program \<open>main\<close> reaches the flag is set.
\<close>

theorem auto_advance_never_modified:
  "auto_advance (SystemMonitor_init now) \<and>
   auto_advance (state_of (prev_screen t s)) = auto_advance s \<and>
   auto_advance (state_of (next_screen t s)) = auto_advance s \<and>
   auto_advance (state_of (prev_command t s)) = auto_advance s \<and>
   auto_advance (state_of (next_command t s)) = auto_advance s \<and>
   auto_advance (state_of (execute_command cenv s)) = auto_advance s \<and>
   auto_advance (fst (maybe_auto_advance t s)) = auto_advance s \<and>
   auto_advance (state_of (run_loop gpio evs s)) = auto_advance s \<and>
   auto_advance (state_of (run env evs s)) = auto_advance s \<and>
   auto_advance (state_of (main env now evs))"
proof -
  have i: "auto_advance (SystemMonitor_init now)"
    by (simp add: SystemMonitor_init_def)
  have l: "auto_advance (state_of (callback (Button_L t) s)) = auto_advance s"
    by (rule callback_auto_advance)
  have r: "auto_advance (state_of (callback (Button_R t) s)) = auto_advance s"
    by (rule callback_auto_advance)
  have a: "auto_advance (state_of (callback (Button_A t) s)) = auto_advance s"
    by (rule callback_auto_advance)
  have b: "auto_advance (state_of (callback (Button_B t) s)) = auto_advance s"
    by (rule callback_auto_advance)
  have m: "auto_advance (state_of (main env now evs))"
    by (simp add: main_def run_auto_advance i)
  show ?thesis
    using i l r a b m
    by (simp add: execute_command_state maybe_auto_advance_flag run_loop_auto_advance
        run_auto_advance)
qed

end
